theory Spec2Isabelle
  imports Complex_Main
begin

section \<open>Python values, exceptions and the effects of the dashboard\<close>

text \<open>
  A value held in a rating dictionary or in a cell of a loaded table: Python's \<open>None\<close>,
  a floating-point NaN, a number, or a text. Numbers are exact rationals: the binary
  rounding of Python floats is not modelled.
\<close>

datatype cell = PNone | NaN | Num rat | Str string

text \<open>
  A value of a rating dictionary (skill name to optional number): \<open>None\<close>, NaN or a
  number.
\<close>

datatype rating = RNone | RNaN | RNum rat

text \<open>The exceptions the program meets. \<open>exn_str\<close> is Python's \<open>str(e)\<close>.\<close>

datatype exn =
    APIError string
  | WorksheetNotFound string
  | IndexError string
  | KeyError string
  | GSpreadException string

fun exn_str :: "exn \<Rightarrow> string" where
  "exn_str (APIError m) = m"
| "exn_str (WorksheetNotFound m) = m"
| "exn_str (IndexError m) = m"
| "exn_str (KeyError m) = m"
| "exn_str (GSpreadException m) = m"

text \<open>
  One cell of a batched write: the A1 address (\<open>'range'\<close>) and the value.
\<close>

type_synonym update = "string \<times> rating"

text \<open>
  The remote calls of the gspread client. A worksheet handle is the worksheet's title.
\<close>

datatype call =
    Worksheet string
  | AddWorksheet string
  | RowValues string int
  | GetAllRecords string
  | AppendRow string "string list"
  | DeleteRows string int
  | BatchUpdate string "update list"

text \<open>
  The remote spreadsheet. \<open>sheets\<close> maps a title to the rows of the worksheet, the
  header row first, every cell a text. \<open>faults\<close> is the fate of the coming remote
  calls, one entry a call: \<open>Some m\<close> makes the call raise \<open>APIError m\<close> and leaves the
  worksheets as they are, \<open>None\<close> (or an exhausted list) lets it through. \<open>calls\<close> is
  the log of the calls issued so far, each with the error it raised, if any.
\<close>

record world =
  sheets :: "string \<rightharpoonup> string list list"
  faults :: "string option list"
  calls :: "(call \<times> exn option) list"

text \<open>
  What the program does locally, in order: invocations of the operation handed to the retry
  executor, \<open>time.sleep\<close>, and the messages shown to the operator.
\<close>

datatype message =
    Retrying rat int int
  | Rate_limit_exceeded
  | Error_loading string
  | Update_rate_limited
  | Scores_updated cell
  | Error_updating string
  | Moved_to_denied cell
  | Moved_to_hired cell
  | Reinstated cell
  | Error_moving string
  | Error_reinstating string

datatype event =
    Invoked
  | Slept rat
  | St_warning message
  | St_error message
  | St_success message

text \<open>
  \<open>rng\<close> is the stream of the coming results of \<open>random.uniform(0, 1)\<close>.
\<close>

record io =
  trace :: "event list"
  rng :: "nat \<Rightarrow> rat"

definition emit :: "event \<Rightarrow> io \<Rightarrow> io" where
  "emit ev s = s\<lparr>trace := trace s @ [ev]\<rparr>"

definition uniform01 :: "io \<Rightarrow> rat \<times> io" where
  "uniform01 s = (rng s 0, s\<lparr>rng := (\<lambda>n. rng s (Suc n))\<rparr>)"

section \<open>Strings\<close>

definition py_lower_char :: "char \<Rightarrow> char" where
  "py_lower_char c =
     (if (65::nat) \<le> of_char c \<and> of_char c \<le> (90::nat)
      then char_of (of_char c + (32::nat)) else c)"

definition py_lower :: "string \<Rightarrow> string" where
  "py_lower s = map py_lower_char s"

fun starts_with :: "string \<Rightarrow> string \<Rightarrow> bool" where
  "starts_with [] s = True"
| "starts_with (p # ps) [] = False"
| "starts_with (p # ps) (c # cs) = (p = c \<and> starts_with ps cs)"

text \<open>\<open>py_in p s\<close> is Python's \<open>p in s\<close> on strings.\<close>

fun py_in :: "string \<Rightarrow> string \<Rightarrow> bool" where
  "py_in p [] = (p = [])"
| "py_in p (c # cs) = (starts_with p (c # cs) \<or> py_in p cs)"

section \<open>The retry executor\<close>

definition is_rate_limit :: "exn \<Rightarrow> bool" where
  "is_rate_limit e =
     (let error_str = py_lower (exn_str e)
      in py_in ''quota exceeded'' error_str \<or> py_in ''429'' error_str
         \<or> py_in ''rate limit'' error_str)"

text \<open>
  An operation handed to the executor: it acts on the remote spreadsheet and raises
  (\<open>Inl\<close>) or returns a Python value (\<open>Inr\<close>), \<open>None\<close> included.
\<close>

type_synonym 'a remote_op = "world \<Rightarrow> (exn + 'a option) \<times> world"

text \<open>
  The loop of \<open>retry_api_call\<close> over the attempts still to run. Falling out of the loop
  returns \<open>None\<close>.
\<close>

fun retry_loop ::
  "'a remote_op \<Rightarrow> int \<Rightarrow> rat \<Rightarrow> int list \<Rightarrow> io \<Rightarrow> world
     \<Rightarrow> (exn + 'a option) \<times> io \<times> world" where
  "retry_loop func max_retries base_delay [] s w = (Inr None, s, w)"
| "retry_loop func max_retries base_delay (attempt # rest) s w =
     (case func w of
        (Inr v, w') \<Rightarrow> (Inr v, emit Invoked s, w')
      | (Inl e, w') \<Rightarrow>
          if is_rate_limit e then
            if attempt < max_retries - 1 then
              (case uniform01 (emit Invoked s) of
                 (j, s1) \<Rightarrow>
                   let delay = base_delay * 2 ^ nat attempt + j;
                       s2 = emit (St_warning (Retrying delay (attempt + 1) max_retries)) s1;
                       s3 = emit (Slept delay) s2
                   in retry_loop func max_retries base_delay rest s3 w')
            else (Inr None, emit (St_error Rate_limit_exceeded) (emit Invoked s), w')
          else (Inl e, emit Invoked s, w'))"

definition py_range :: "int \<Rightarrow> int list" where
  "py_range n = map int [0..<nat n]"

definition retry_api_call ::
  "'a remote_op \<Rightarrow> int \<Rightarrow> rat \<Rightarrow> io \<Rightarrow> world \<Rightarrow> (exn + 'a option) \<times> io \<times> world" where
  "retry_api_call func max_retries base_delay s w =
     retry_loop func max_retries base_delay (py_range max_retries) s w"

text \<open>The call with the default arguments \<open>max_retries=3, base_delay=1\<close>.\<close>

definition retry_api_call_default ::
  "'a remote_op \<Rightarrow> io \<Rightarrow> world \<Rightarrow> (exn + 'a option) \<times> io \<times> world" where
  "retry_api_call_default func s w = retry_api_call func 3 1 s w"

section \<open>The remote spreadsheet\<close>

text \<open>
  A remote call \<open>c\<close> with the effect \<open>sem\<close> on the worksheets: the call takes the next
  entry of \<open>faults\<close>, raises if that entry says so or if \<open>sem\<close> does, and is logged
  with its outcome. A call that raises leaves the worksheets unchanged.
\<close>

definition perform ::
  "call \<Rightarrow> ((string \<rightharpoonup> string list list) \<Rightarrow> exn + 'a \<times> (string \<rightharpoonup> string list list))
     \<Rightarrow> world \<Rightarrow> (exn + 'a) \<times> world" where
  "perform c sem w =
     (case faults w of
        Some m # fs \<Rightarrow>
          (Inl (APIError m), w\<lparr>faults := fs, calls := calls w @ [(c, Some (APIError m))]\<rparr>)
      | _ \<Rightarrow>
          (case sem (sheets w) of
             Inl e \<Rightarrow> (Inl e, w\<lparr>faults := tl (faults w), calls := calls w @ [(c, Some e)]\<rparr>)
           | Inr (v, sh) \<Rightarrow>
               (Inr v, w\<lparr>sheets := sh, faults := tl (faults w),
                         calls := calls w @ [(c, None)]\<rparr>)))"

definition not_found :: exn where
  "not_found = APIError ''Requested entity was not found.''"

text \<open>\<open>spreadsheet.worksheet(title)\<close>\<close>

definition ws_worksheet :: "string \<Rightarrow> world \<Rightarrow> (exn + string) \<times> world" where
  "ws_worksheet title =
     perform (Worksheet title)
       (\<lambda>sh. case sh title of None \<Rightarrow> Inl (WorksheetNotFound title) | Some g \<Rightarrow> Inr (title, sh))"

text \<open>\<open>spreadsheet.add_worksheet(title=..., rows=1000, cols=20)\<close>: a sheet with no value.\<close>

definition add_worksheet :: "string \<Rightarrow> world \<Rightarrow> (exn + string) \<times> world" where
  "add_worksheet title =
     perform (AddWorksheet title)
       (\<lambda>sh. case sh title of
              None \<Rightarrow> Inr (title, sh(title \<mapsto> []))
            | Some g \<Rightarrow> Inl (APIError ''A sheet with this name already exists.''))"

text \<open>\<open>worksheet.row_values(i)\<close>: the texts of row \<open>i\<close> (1-based), empty past the last row.\<close>

definition row_values :: "string \<Rightarrow> int \<Rightarrow> world \<Rightarrow> (exn + string list) \<times> world" where
  "row_values ws i =
     perform (RowValues ws i)
       (\<lambda>sh. case sh ws of
              None \<Rightarrow> Inl not_found
            | Some g \<Rightarrow>
                if i < 1 then Inl (APIError ''Unable to parse range'')
                else Inr (if i \<le> int (length g) then g ! nat (i - 1) else [], sh))"

text \<open>\<open>worksheet.append_row(values)\<close>: a new row after the last one.\<close>

definition append_row :: "string \<Rightarrow> string list \<Rightarrow> world \<Rightarrow> (exn + unit) \<times> world" where
  "append_row ws vals =
     perform (AppendRow ws vals)
       (\<lambda>sh. case sh ws of
              None \<Rightarrow> Inl not_found
            | Some g \<Rightarrow> Inr ((), sh(ws \<mapsto> g @ [vals])))"

text \<open>\<open>worksheet.delete_rows(i)\<close>: row \<open>i\<close> (1-based) goes, the rows below move up.\<close>

definition delete_rows :: "string \<Rightarrow> int \<Rightarrow> world \<Rightarrow> (exn + unit) \<times> world" where
  "delete_rows ws i =
     perform (DeleteRows ws i)
       (\<lambda>sh. case sh ws of
              None \<Rightarrow> Inl not_found
            | Some g \<Rightarrow>
                if i < 1 then Inl (APIError ''Invalid requests[0].deleteDimension'')
                else Inr ((), sh(ws \<mapsto> take (nat (i - 1)) g @ drop (nat i) g)))"

text \<open>
  \<open>worksheet.batch_update(updates)\<close>. The log keeps the batch; how the store turns A1
  addresses into cells is not part of the program, and the texts of \<open>sheets\<close> are left
  as they are.
\<close>

definition batch_update :: "string \<Rightarrow> update list \<Rightarrow> unit remote_op" where
  "batch_update ws updates =
     perform (BatchUpdate ws updates)
       (\<lambda>sh. case sh ws of None \<Rightarrow> Inl not_found | Some g \<Rightarrow> Inr (Some (), sh))"

text \<open>
  \<open>worksheet.get_all_records()\<close>: one dictionary a data row, keyed by the header row.
  On a sheet without values it returns the empty list. Otherwise gspread first asks that no
  name occurs twice in the header row, and raises if one does, whether or not there are
  data rows. \<open>numericise\<close> is gspread's conversion of a cell text to a Python value.
\<close>

definition header_not_unique :: exn where
  "header_not_unique = GSpreadException ''the header row in the worksheet is not unique''"

definition records_of ::
  "(string \<Rightarrow> cell) \<Rightarrow> string list list \<Rightarrow> exn + (string \<times> cell) list list" where
  "records_of numericise g =
     (case g of
        [] \<Rightarrow> Inr []
      | keys # vals \<Rightarrow>
          if distinct keys
          then Inr (map (\<lambda>r. zip keys
                               (map numericise (r @ replicate (length keys - length r) [])))
                      vals)
          else Inl header_not_unique)"

definition get_all_records ::
  "(string \<Rightarrow> cell) \<Rightarrow> string \<Rightarrow> (string \<times> cell) list list remote_op" where
  "get_all_records numericise ws =
     perform (GetAllRecords ws)
       (\<lambda>sh. case sh ws of
              None \<Rightarrow> Inl not_found
            | Some g \<Rightarrow>
                (case records_of numericise g of
                   Inl e \<Rightarrow> Inl e
                 | Inr data \<Rightarrow> Inr (Some data, sh)))"

section \<open>The worksheet resolver\<close>

definition SKILL_COLUMNS :: "string list" where
  "SKILL_COLUMNS =
     [''Throwing Skill'', ''Strength Skill'', ''Data Skill'',
      ''Aptitude'', ''Professionalism'', ''Culture Fit'', ''Trust'']"

definition canonical_columns :: "string list" where
  "canonical_columns =
     [''name'', ''date of application'', ''date of birth''] @ SKILL_COLUMNS
       @ [''Applicant Score'']"

definition get_or_create_worksheet :: "string \<Rightarrow> world \<Rightarrow> (exn + string) \<times> world" where
  "get_or_create_worksheet worksheet_name w =
     (case ws_worksheet worksheet_name w of
        (Inr worksheet, w1) \<Rightarrow> (Inr worksheet, w1)
      | (Inl e, w1) \<Rightarrow>
          (case e of
             WorksheetNotFound m \<Rightarrow>
               (case add_worksheet worksheet_name w1 of
                  (Inl e2, w2) \<Rightarrow> (Inl e2, w2)
                | (Inr worksheet, w2) \<Rightarrow>
                    (case append_row worksheet canonical_columns w2 of
                       (Inl e3, w3) \<Rightarrow> (Inl e3, w3)
                     | (Inr u, w3) \<Rightarrow> (Inr worksheet, w3)))
           | _ \<Rightarrow> (Inl e, w1)))"

section \<open>The tabular loader\<close>

record dataframe =
  columns :: "string list"
  rows :: "(string \<rightharpoonup> cell) list"

text \<open>\<open>pd.DataFrame()\<close>: no column, no row.\<close>

definition DataFrame_empty :: dataframe where
  "DataFrame_empty = \<lparr>columns = [], rows = []\<rparr>"

text \<open>\<open>pd.DataFrame(data)\<close> for the records of one worksheet, which share their keys.\<close>

definition DataFrame :: "(string \<times> cell) list list \<Rightarrow> dataframe" where
  "DataFrame data =
     \<lparr>columns = (case data of [] \<Rightarrow> [] | r # rs \<Rightarrow> map fst r), rows = map map_of data\<rparr>"

text \<open>
  \<open>if col in df.columns: df[col] = conv(df[col], errors='coerce')\<close>, where \<open>conv\<close>
  (pandas' \<open>to_datetime\<close> or \<open>to_numeric\<close>) maps a column to a column of the same length.
\<close>

definition convert_column :: "(cell list \<Rightarrow> cell list) \<Rightarrow> string \<Rightarrow> dataframe \<Rightarrow> dataframe" where
  "convert_column conv col df =
     (if col \<in> set (columns df)
      then df\<lparr>rows :=
             map (\<lambda>(r, v). r(col \<mapsto> v))
               (zip (rows df)
                  (conv (map (\<lambda>r. case r col of None \<Rightarrow> NaN | Some v \<Rightarrow> v) (rows df))))\<rparr>
      else df)"

definition load_applicants_data ::
  "(string \<Rightarrow> cell) \<Rightarrow> (cell list \<Rightarrow> cell list) \<Rightarrow> (cell list \<Rightarrow> cell list)
     \<Rightarrow> string \<Rightarrow> io \<Rightarrow> world \<Rightarrow> dataframe \<times> io \<times> world" where
  "load_applicants_data numericise to_datetime to_numeric worksheet s w =
     (case retry_api_call_default (get_all_records numericise worksheet) s w of
        (Inl e, s1, w1) \<Rightarrow>
          (DataFrame_empty, emit (St_error (Error_loading (exn_str e))) s1, w1)
      | (Inr None, s1, w1) \<Rightarrow> (DataFrame_empty, s1, w1)
      | (Inr (Some data), s1, w1) \<Rightarrow>
          if data = [] then (\<lparr>columns = canonical_columns, rows = []\<rparr>, s1, w1)
          else
            (fold (convert_column to_numeric) (SKILL_COLUMNS @ [''Applicant Score''])
               (fold (convert_column to_datetime) [''date of application'', ''date of birth'']
                  (DataFrame data)),
             s1, w1))"

section \<open>The score engine\<close>

text \<open>Python's truth value of a rating, and \<open>pd.isna\<close>.\<close>

fun truthy :: "rating \<Rightarrow> bool" where
  "truthy RNone = False"
| "truthy RNaN = True"
| "truthy (RNum q) = (q \<noteq> 0)"

fun isna_rating :: "rating \<Rightarrow> bool" where
  "isna_rating RNone = True"
| "isna_rating RNaN = True"
| "isna_rating (RNum q) = False"

text \<open>\<open>float(score)\<close>; the program calls it on numbers only.\<close>

fun py_float :: "rating \<Rightarrow> rat" where
  "py_float (RNum q) = q"
| "py_float RNone = 0"
| "py_float RNaN = 0"

text \<open>\<open>round(x, 2)\<close>: to the nearest hundredth, a tie to the even one.\<close>

definition py_round2 :: "rat \<Rightarrow> rat" where
  "py_round2 x =
     (let y = x * 100; n = \<lfloor>y\<rfloor>; f = y - of_int n
      in of_int (if f < 1 / 2 then n
                 else if 1 / 2 < f then n + 1
                 else if even n then n else n + 1) / 100)"

text \<open>The loop of \<open>calculate_applicant_score\<close> over the skills still to visit.\<close>

fun collect_scores :: "(string \<rightharpoonup> rating) \<Rightarrow> string list \<Rightarrow> rat list \<Rightarrow> rat list" where
  "collect_scores row_data [] scores = scores"
| "collect_scores row_data (skill # rest) scores =
     (let score = (case row_data skill of None \<Rightarrow> RNum 0 | Some v \<Rightarrow> v)
      in if truthy score \<and> \<not> isna_rating score
         then collect_scores row_data rest (scores @ [py_float score])
         else collect_scores row_data rest scores)"

definition np_mean :: "rat list \<Rightarrow> rat" where
  "np_mean xs = sum_list xs / of_nat (length xs)"

definition calculate_applicant_score :: "(string \<rightharpoonup> rating) \<Rightarrow> rat" where
  "calculate_applicant_score row_data =
     (let scores = collect_scores row_data SKILL_COLUMNS []
      in if scores \<noteq> [] then py_round2 (np_mean scores) else 0)"



section \<open>The mutation engine\<close>

text \<open>\<open>df.iloc[i]\<close>, negative positions counting from the end, and \<open>row['name']\<close>.\<close>

definition iloc :: "dataframe \<Rightarrow> int \<Rightarrow> exn + (string \<rightharpoonup> cell)" where
  "iloc df i =
     (if 0 \<le> i \<and> i < int (length (rows df)) then Inr (rows df ! nat i)
      else if i < 0 \<and> - int (length (rows df)) \<le> i
      then Inr (rows df ! nat (int (length (rows df)) + i))
      else Inl (IndexError ''single positional indexer is out-of-bounds''))"

definition row_name :: "(string \<rightharpoonup> cell) \<Rightarrow> exn + cell" where
  "row_name row_data =
     (case row_data ''name'' of None \<Rightarrow> Inl (KeyError ''name'') | Some v \<Rightarrow> Inr v)"

text \<open>\<open>headers.index(x)\<close> for an \<open>x\<close> that is in \<open>headers\<close>.\<close>

fun py_index :: "string list \<Rightarrow> string \<Rightarrow> nat" where
  "py_index [] x = 0"
| "py_index (h # hs) x = (if h = x then 0 else Suc (py_index hs x))"

text \<open>Decimal text of an integer, as an f-string writes it.\<close>

function str_nat :: "nat \<Rightarrow> string" where
  "str_nat n =
     (if n < 10 then [char_of (48 + n)]
      else str_nat (n div 10) @ [char_of (48 + n mod 10)])"
  by pat_completeness auto
termination
  by (relation "measure id") auto

declare str_nat.simps [simp del]

definition str_int :: "int \<Rightarrow> string" where
  "str_int i = (if i < 0 then CHR ''-'' # str_nat (nat (- i)) else str_nat (nat i))"

text \<open>
  \<open>f'{chr(64 + col_index)}{sheet_row}'\<close>. A \<open>char\<close> is a byte, so columns past
  code point 255 are outside this model.
\<close>

definition a1 :: "nat \<Rightarrow> int \<Rightarrow> string" where
  "a1 col_index sheet_row = char_of (64 + col_index) # str_int sheet_row"

text \<open>The loop over \<open>scores.items()\<close>, a dictionary in insertion order.\<close>

fun skill_updates ::
  "string list \<Rightarrow> int \<Rightarrow> (string \<times> rating) list \<Rightarrow> update list \<Rightarrow> update list" where
  "skill_updates headers sheet_row [] updates = updates"
| "skill_updates headers sheet_row ((skill, score) # rest) updates =
     (if skill \<in> set headers
      then let col_index = py_index headers skill + 1
           in skill_updates headers sheet_row rest (updates @ [(a1 col_index sheet_row, score)])
      else skill_updates headers sheet_row rest updates)"

definition all_updates ::
  "string list \<Rightarrow> int \<Rightarrow> (string \<times> rating) list \<Rightarrow> rat \<Rightarrow> update list" where
  "all_updates headers sheet_row scores applicant_score =
     (let updates = skill_updates headers sheet_row scores []
      in if ''Applicant Score'' \<in> set headers
         then let col_index = py_index headers ''Applicant Score'' + 1
              in updates @ [(a1 col_index sheet_row, RNum applicant_score)]
         else updates)"

text \<open>The last statement of the \<open>try\<close> block: the success message names the applicant.\<close>

definition report_updated :: "dataframe \<Rightarrow> int \<Rightarrow> io \<Rightarrow> io" where
  "report_updated df row_index s =
     (case iloc df row_index of
        Inl e \<Rightarrow> emit (St_error (Error_updating (exn_str e))) s
      | Inr row_data \<Rightarrow>
          (case row_name row_data of
             Inl e \<Rightarrow> emit (St_error (Error_updating (exn_str e))) s
           | Inr nm \<Rightarrow> emit (St_success (Scores_updated nm)) s))"

definition update_applicant_scores ::
  "string \<Rightarrow> dataframe \<Rightarrow> int \<Rightarrow> (string \<times> rating) list \<Rightarrow> io \<Rightarrow> world \<Rightarrow> io \<times> world" where
  "update_applicant_scores worksheet df row_index scores s w =
     (let applicant_score = calculate_applicant_score (map_of scores);
          sheet_row = row_index + 2
      in case row_values worksheet 1 w of
           (Inl e, w1) \<Rightarrow> (emit (St_error (Error_updating (exn_str e))) s, w1)
         | (Inr headers, w1) \<Rightarrow>
             let updates = all_updates headers sheet_row scores applicant_score
             in if updates \<noteq> [] then
                  (case retry_api_call_default (batch_update worksheet updates) s w1 of
                     (Inl e, s2, w2) \<Rightarrow> (emit (St_error (Error_updating (exn_str e))) s2, w2)
                   | (Inr None, s2, w2) \<Rightarrow> (emit (St_error Update_rate_limited) s2, w2)
                   | (Inr (Some result), s2, w2) \<Rightarrow> (report_updated df row_index s2, w2))
                else (report_updated df row_index s, w1))"

text \<open>\<open>pd.isna\<close> and \<open>str\<close> on a cell; \<open>num_str\<close> is Python's text of a number.\<close>

fun isna :: "cell \<Rightarrow> bool" where
  "isna PNone = True"
| "isna NaN = True"
| "isna (Num q) = False"
| "isna (Str t) = False"

fun py_str :: "(rat \<Rightarrow> string) \<Rightarrow> cell \<Rightarrow> string" where
  "py_str num_str (Str t) = t"
| "py_str num_str (Num q) = num_str q"
| "py_str num_str PNone = ''None''"
| "py_str num_str NaN = ''nan''"

text \<open>The loop that turns the row into the list to append, one text a header.\<close>

fun row_to_list ::
  "(rat \<Rightarrow> string) \<Rightarrow> (string \<rightharpoonup> cell) \<Rightarrow> string list \<Rightarrow> string list \<Rightarrow> string list" where
  "row_to_list num_str row_data [] row_vals = row_vals"
| "row_to_list num_str row_data (header # rest) row_vals =
     (let v = (case row_data header of None \<Rightarrow> Str [] | Some x \<Rightarrow> x);
          v = (if isna v then Str [] else v)
      in row_to_list num_str row_data rest (row_vals @ [py_str num_str v]))"

text \<open>
  The body shared, word for word, by \<open>move_applicant_to_denied\<close>,
  \<open>move_applicant_to_hired\<close> and \<open>reinstate_applicant\<close>: \<open>source\<close> is the worksheet
  the row leaves (its header row is the one read), \<open>dest\<close> the one it is appended to.
\<close>

definition move_row ::
  "(rat \<Rightarrow> string) \<Rightarrow> string \<Rightarrow> string \<Rightarrow> (cell \<Rightarrow> message) \<Rightarrow> (string \<Rightarrow> message)
     \<Rightarrow> dataframe \<Rightarrow> int \<Rightarrow> io \<Rightarrow> world \<Rightarrow> io \<times> world" where
  "move_row num_str source dest ok err df row_index s w =
     (case iloc df row_index of
        Inl e \<Rightarrow> (emit (St_error (err (exn_str e))) s, w)
      | Inr row_data \<Rightarrow>
          (case row_values source 1 w of
             (Inl e, w1) \<Rightarrow> (emit (St_error (err (exn_str e))) s, w1)
           | (Inr headers, w1) \<Rightarrow>
               (case append_row dest (row_to_list num_str row_data headers []) w1 of
                  (Inl e, w2) \<Rightarrow> (emit (St_error (err (exn_str e))) s, w2)
                | (Inr u, w2) \<Rightarrow>
                    (case delete_rows source (row_index + 2) w2 of
                       (Inl e, w3) \<Rightarrow> (emit (St_error (err (exn_str e))) s, w3)
                     | (Inr u', w3) \<Rightarrow>
                         (case row_name row_data of
                            Inl e \<Rightarrow> (emit (St_error (err (exn_str e))) s, w3)
                          | Inr nm \<Rightarrow> (emit (St_success (ok nm)) s, w3))))))"

definition move_applicant_to_denied ::
  "(rat \<Rightarrow> string) \<Rightarrow> string \<Rightarrow> string \<Rightarrow> dataframe \<Rightarrow> int \<Rightarrow> io \<Rightarrow> world \<Rightarrow> io \<times> world" where
  "move_applicant_to_denied num_str main_worksheet denied_worksheet df row_index s w =
     move_row num_str main_worksheet denied_worksheet Moved_to_denied Error_moving
       df row_index s w"

definition move_applicant_to_hired ::
  "(rat \<Rightarrow> string) \<Rightarrow> string \<Rightarrow> string \<Rightarrow> dataframe \<Rightarrow> int \<Rightarrow> io \<Rightarrow> world \<Rightarrow> io \<times> world" where
  "move_applicant_to_hired num_str main_worksheet hired_worksheet df row_index s w =
     move_row num_str main_worksheet hired_worksheet Moved_to_hired Error_moving
       df row_index s w"

definition reinstate_applicant ::
  "(rat \<Rightarrow> string) \<Rightarrow> string \<Rightarrow> string \<Rightarrow> dataframe \<Rightarrow> int \<Rightarrow> io \<Rightarrow> world \<Rightarrow> io \<times> world" where
  "reinstate_applicant num_str main_worksheet denied_worksheet df row_index s w =
     move_row num_str denied_worksheet main_worksheet Reinstated Error_reinstating
       df row_index s w"

text \<open>The three stage transitions, by the worksheet the row leaves and the one it joins.\<close>

datatype transition = Deny | Hire | Reinstate

fun transition_stage ::
  "transition \<Rightarrow> (rat \<Rightarrow> string) \<Rightarrow> string \<Rightarrow> string \<Rightarrow> dataframe \<Rightarrow> int \<Rightarrow> io \<Rightarrow> world
     \<Rightarrow> io \<times> world" where
  "transition_stage Deny num_str source dest df row_index s w =
     move_applicant_to_denied num_str source dest df row_index s w"
| "transition_stage Hire num_str source dest df row_index s w =
     move_applicant_to_hired num_str source dest df row_index s w"
| "transition_stage Reinstate num_str source dest df row_index s w =
     reinstate_applicant num_str dest source df row_index s w"

text \<open>
  The row the specification asks a transition to append: the destination worksheet's
  header row decides the order.
\<close>

definition spec_row ::
  "(rat \<Rightarrow> string) \<Rightarrow> (string \<rightharpoonup> cell) \<Rightarrow> string list \<Rightarrow> string list" where
  "spec_row num_str row_data dest_headers =
     map (\<lambda>h. case row_data h of
                None \<Rightarrow> []
              | Some v \<Rightarrow> if isna v then [] else py_str num_str v) dest_headers"


section \<open>Runs of the retry executor\<close>

text \<open>
  The remote state after \<open>k\<close> invocations of \<open>func\<close> in a row that all raise a rate-limit
  error, \<open>None\<close> if one of them does not.
\<close>

fun after_failures :: "'a remote_op \<Rightarrow> nat \<Rightarrow> world \<Rightarrow> world option" where
  "after_failures func 0 w = Some w"
| "after_failures func (Suc k) w =
     (case func w of
        (Inl e, w') \<Rightarrow> if is_rate_limit e then after_failures func k w' else None
      | (Inr v, w') \<Rightarrow> None)"

text \<open>What the executor does locally around the failed attempt \<open>a\<close> when it retries.\<close>

definition backoff :: "int \<Rightarrow> rat \<Rightarrow> nat \<Rightarrow> rat \<Rightarrow> event list" where
  "backoff max_retries base_delay a j =
     [Invoked,
      St_warning (Retrying (base_delay * 2 ^ a + j) (int a + 1) max_retries),
      Slept (base_delay * 2 ^ a + j)]"

text \<open>The local state after the \<open>k\<close> failed attempts \<open>a, a + 1, ...\<close> and their sleeps.\<close>

fun waited :: "int \<Rightarrow> rat \<Rightarrow> nat \<Rightarrow> nat \<Rightarrow> io \<Rightarrow> io" where
  "waited max_retries base_delay a 0 s = s"
| "waited max_retries base_delay a (Suc k) s =
     waited max_retries base_delay (Suc a) k
       \<lparr>trace = trace s @ backoff max_retries base_delay a (rng s 0),
        rng = (\<lambda>n. rng s (Suc n))\<rparr>"

definition sleeps :: "event list \<Rightarrow> rat list" where
  "sleeps evs = concat (map (\<lambda>ev. case ev of Slept d \<Rightarrow> [d] | _ \<Rightarrow> []) evs)"

definition invocations :: "event list \<Rightarrow> nat" where
  "invocations evs = length (filter (\<lambda>ev. ev = Invoked) evs)"


text \<open>The header row of a worksheet: its first row, empty on a sheet without values.\<close>

definition header_row :: "string list list \<Rightarrow> string list" where
  "header_row g = (case g of [] \<Rightarrow> [] | h # rest \<Rightarrow> h)"

section \<open>Sample data\<close>

text \<open>
  An active worksheet with one applicant, a denied worksheet whose header row has the two
  columns in the other order, the table loaded from the active worksheet, a spreadsheet
  whose active worksheet has a header row that repeats a name and no data row, and a local
  state.
\<close>

definition w_demo :: world where
  "w_demo =
     \<lparr>sheets = [''Tread Hiring'' \<mapsto> [[''name'', ''Trust''], [''Alice'', ''9'']],
                ''Denied Applicants'' \<mapsto> [[''Trust'', ''name'']]],
      faults = [], calls = []\<rparr>"

definition df_demo :: dataframe where
  "df_demo =
     \<lparr>columns = [''name'', ''Trust''],
      rows = [[''name'' \<mapsto> Str ''Alice'', ''Trust'' \<mapsto> Num 9]]\<rparr>"

definition w_dup :: world where
  "w_dup =
     \<lparr>sheets = [''Tread Hiring'' \<mapsto> [[''name'', ''Trust'', ''Trust'']]],
      faults = [], calls = []\<rparr>"

definition msg_429 :: string where
  "msg_429 = ''APIError: [429]: Quota exceeded for quota metric''"

definition s_demo :: io where
  "s_demo = \<lparr>trace = [], rng = (\<lambda>n. 1 / 2)\<rparr>"

text \<open>The error message of a transition: \<open>reinstate_applicant\<close> has its own wording.\<close>

definition transition_error :: "transition \<Rightarrow> string \<Rightarrow> message" where
  "transition_error t =
     (case t of Deny \<Rightarrow> Error_moving | Hire \<Rightarrow> Error_moving | Reinstate \<Rightarrow> Error_reinstating)"

section \<open>Properties of the retry executor\<close>

lemma rng_waited: "rng (waited mr bd a k s) = (\<lambda>n. rng s (n + k))"
  by (induction k arbitrary: a s) simp_all

lemma trace_waited:
  "trace (waited mr bd a k s) =
     trace s @ concat (map (\<lambda>i. backoff mr bd (a + i) (rng s i)) [0..<k])"
proof (induction k arbitrary: a s)
  case 0
  show ?case by simp
next
  case (Suc k)
  have "map (\<lambda>i. backoff mr bd (a + i) (rng s i)) [0..<Suc k] =
        backoff mr bd a (rng s 0) # map (\<lambda>i. backoff mr bd (Suc a + i) (rng s (Suc i))) [0..<k]"
    by (simp add: upt_conv_Cons map_Suc_upt [symmetric] del: upt_Suc)
  then show ?case using Suc.IH [of "Suc a"] by simp
qed

lemma retry_loop_fail_step:
  "func w = (Inl e, w') \<Longrightarrow> is_rate_limit e \<Longrightarrow> int a < mr - 1 \<Longrightarrow>
   retry_loop func mr bd (int a # rest) s w =
   retry_loop func mr bd rest
     \<lparr>trace = trace s @ backoff mr bd a (rng s 0), rng = (\<lambda>n. rng s (Suc n))\<rparr> w'"
  by (cases s) (simp add: uniform01_def emit_def backoff_def Let_def)

lemma loop_skip:
  "after_failures func k w = Some w1 \<Longrightarrow> a + k < n \<Longrightarrow> mr = int n \<Longrightarrow>
   retry_loop func mr bd (map int [a..<n]) s w =
   retry_loop func mr bd (map int [a + k..<n]) (waited mr bd a k s) w1"
proof (induction k arbitrary: a s w)
  case 0
  then show ?case by simp
next
  case (Suc k)
  from Suc.prems(1) obtain e w' where f: "func w = (Inl e, w')" and rl: "is_rate_limit e"
    and af: "after_failures func k w' = Some w1"
    by (auto split: prod.splits sum.splits if_splits)
  have lt: "a < n" using Suc.prems(2) by simp
  have lt2: "int a < mr - 1" using Suc.prems(2,3) by simp
  have unf: "map int [a..<n] = int a # map int [Suc a..<n]"
    using lt by (simp add: upt_conv_Cons)
  have step: "retry_loop func mr bd (map int [a..<n]) s w =
     retry_loop func mr bd (map int [Suc a..<n])
       \<lparr>trace = trace s @ backoff mr bd a (rng s 0), rng = (\<lambda>n. rng s (Suc n))\<rparr> w'"
    unfolding unf using f rl lt2 by (rule retry_loop_fail_step)
  show ?case
    using Suc.IH [OF af, of "Suc a"] Suc.prems(2,3) step by simp
qed

lemma retry_after_failures_success:
  assumes "after_failures func k w = Some w1" and "func w1 = (Inr v, w2)" and "int k < mr"
  shows "retry_api_call func mr bd s w = (Inr v, emit Invoked (waited mr bd 0 k s), w2)"
proof -
  have lt: "k < nat mr" using assms(3) by simp
  have mr: "mr = int (nat mr)" using assms(3) by simp
  have unf: "map int [k..<nat mr] = int k # map int [Suc k..<nat mr]"
    using lt by (simp add: upt_conv_Cons)
  have "retry_api_call func mr bd s w =
        retry_loop func mr bd (map int [0 + k..<nat mr]) (waited mr bd 0 k s) w1"
    unfolding retry_api_call_def py_range_def
    using loop_skip [OF assms(1), of 0 "nat mr" mr bd s] lt mr by simp
  also have "\<dots> = (Inr v, emit Invoked (waited mr bd 0 k s), w2)"
    using assms(2) by (simp add: unf)
  finally show ?thesis .
qed

lemma retry_after_failures_raise:
  assumes "after_failures func k w = Some w1" and "func w1 = (Inl e, w2)"
    and "\<not> is_rate_limit e" and "int k < mr"
  shows "retry_api_call func mr bd s w = (Inl e, emit Invoked (waited mr bd 0 k s), w2)"
proof -
  have lt: "k < nat mr" using assms(4) by simp
  have mr: "mr = int (nat mr)" using assms(4) by simp
  have unf: "map int [k..<nat mr] = int k # map int [Suc k..<nat mr]"
    using lt by (simp add: upt_conv_Cons)
  have "retry_api_call func mr bd s w =
        retry_loop func mr bd (map int [0 + k..<nat mr]) (waited mr bd 0 k s) w1"
    unfolding retry_api_call_def py_range_def
    using loop_skip [OF assms(1), of 0 "nat mr" mr bd s] lt mr by simp
  also have "\<dots> = (Inl e, emit Invoked (waited mr bd 0 k s), w2)"
    using assms(2,3) by (simp add: unf)
  finally show ?thesis .
qed

lemma retry_after_failures_exhausted:
  assumes "after_failures func k w = Some w1" and "func w1 = (Inl e, w2)"
    and "is_rate_limit e" and "int (Suc k) = mr"
  shows "retry_api_call func mr bd s w =
           (Inr None, emit (St_error Rate_limit_exceeded) (emit Invoked (waited mr bd 0 k s)), w2)"
proof -
  have lt: "k < nat mr" using assms(4) by auto
  have mr: "mr = int (nat mr)" using assms(4) by auto
  have unf: "map int [k..<nat mr] = [int k]"
    using assms(4) by (auto simp add: upt_conv_Cons)
  have "retry_api_call func mr bd s w =
        retry_loop func mr bd (map int [0 + k..<nat mr]) (waited mr bd 0 k s) w1"
    unfolding retry_api_call_def py_range_def
    using loop_skip [OF assms(1), of 0 "nat mr" mr bd s] lt mr by simp
  also have "\<dots> = (Inr None, emit (St_error Rate_limit_exceeded) (emit Invoked (waited mr bd 0 k s)), w2)"
    using assms(2,3,4) by (auto simp add: unf)
  finally show ?thesis .
qed

lemma always_limited_after_failures:
  assumes "\<forall>w. \<exists>e w'. func w = (Inl e, w') \<and> is_rate_limit e"
  shows "\<exists>w1. after_failures func k w = Some w1"
proof (induction k arbitrary: w)
  case 0
  show ?case by simp
next
  case (Suc k)
  from assms obtain e w' where "func w = (Inl e, w')" "is_rate_limit e" by blast
  then show ?case using Suc [of w'] by simp
qed

lemma sleeps_append: "sleeps (xs @ ys) = sleeps xs @ sleeps ys"
  by (simp add: sleeps_def)


lemma sleeps_backoffs:
  "sleeps (concat (map (\<lambda>i. backoff mr bd (a + i) (j i)) [0..<k])) =
     map (\<lambda>i. bd * 2 ^ (a + i) + j i) [0..<k]"
proof (induction k)
  case 0
  show ?case by (simp add: sleeps_def)
next
  case (Suc k)
  have "sleeps (backoff mr bd (a + k) (j k)) = [bd * 2 ^ (a + k) + j k]"
    by (simp add: sleeps_def backoff_def)
  then show ?case using Suc by (simp add: sleeps_append)
qed



lemma is_rate_limit_429: "is_rate_limit (APIError ''APIError: [429]: Quota exceeded for quota metric'')"
  by (simp add: is_rate_limit_def py_lower_def py_lower_char_def)

lemma not_rate_limit_perm: "\<not> is_rate_limit (APIError ''permission denied'')"
  by (simp add: is_rate_limit_def py_lower_def py_lower_char_def)



text \<open>
  Claim C6. If the invocation of the operation raises an error without a rate-limit
  signature, the executor has invoked it exactly once, has not slept, and raises that same
  error.
\<close>

theorem non_transient_propagates:
  assumes "func w = (Inl e, w')" and "\<not> is_rate_limit e" and "1 \<le> max_retries"
  shows "retry_api_call func max_retries base_delay s w = (Inl e, emit Invoked s, w')
         \<and> invocations (trace (emit Invoked s)) = invocations (trace s) + 1
         \<and> sleeps (trace (emit Invoked s)) = sleeps (trace s)"
proof -
  have "after_failures func 0 w = Some w" by simp
  from retry_after_failures_raise [OF this assms(1,2), of max_retries base_delay s] assms(3)
  have "retry_api_call func max_retries base_delay s w = (Inl e, emit Invoked s, w')" by simp
  then show ?thesis
    by (simp add: emit_def invocations_def sleeps_def)
qed

theorem non_transient_propagates_witness:
  "retry_api_call (\<lambda>w. (Inl (APIError ''permission denied'') :: exn + unit option, w)) 3 1
       \<lparr>trace = [], rng = (\<lambda>n. 0)\<rparr> \<lparr>sheets = Map.empty, faults = [], calls = []\<rparr>
     = (Inl (APIError ''permission denied''), \<lparr>trace = [Invoked], rng = (\<lambda>n. 0)\<rparr>,
        \<lparr>sheets = Map.empty, faults = [], calls = []\<rparr>)"
  using non_transient_propagates [of "\<lambda>w. (Inl (APIError ''permission denied'') :: exn + unit option, w)"
      "\<lparr>sheets = Map.empty, faults = [], calls = []\<rparr>" "APIError ''permission denied''"
      "\<lparr>sheets = Map.empty, faults = [], calls = []\<rparr>" 3 1 "\<lparr>trace = [], rng = (\<lambda>n. 0)\<rparr>"]
    not_rate_limit_perm
  by (simp add: emit_def)

section \<open>Properties of the score engine\<close>




section \<open>Properties of the worksheet resolver\<close>

lemma ws_worksheet_existing:
  assumes "title \<in> dom (sheets w)"
  shows "sheets (snd (ws_worksheet title w)) = sheets w
       \<and> map fst (calls (snd (ws_worksheet title w))) = map fst (calls w) @ [Worksheet title]
       \<and> faults (snd (ws_worksheet title w)) = tl (faults w)
       \<and> (case fst (ws_worksheet title w) of
            Inr h \<Rightarrow> h = title \<and> (faults w = [] \<or> hd (faults w) = None)
          | Inl e \<Rightarrow> faults w \<noteq> [] \<and> hd (faults w) = Some (exn_str e) \<and> e = APIError (exn_str e))"
  using assms
  by (auto simp add: ws_worksheet_def perform_def split: list.splits option.splits)

lemma get_or_create_existing:
  assumes "title \<in> dom (sheets w)"
  shows "get_or_create_worksheet title w = ws_worksheet title w"
  using assms
  by (auto simp add: get_or_create_worksheet_def ws_worksheet_def perform_def
      split: list.splits option.splits)

text \<open>
  Claim C9. Resolving twice a worksheet name that exists in the spreadsheet leaves every
  worksheet as it was (no header row is written, no worksheet is added), issues only the
  two lookups, and returns the same worksheet both times when the lookups go through.
\<close>

theorem resolve_existing_idempotent:
  assumes "worksheet_name \<in> dom (sheets w)"
    and "get_or_create_worksheet worksheet_name w = (r1, w1)"
    and "get_or_create_worksheet worksheet_name w1 = (r2, w2)"
  shows "sheets w1 = sheets w \<and> sheets w2 = sheets w
       \<and> map fst (calls w2) = map fst (calls w) @ [Worksheet worksheet_name, Worksheet worksheet_name]
       \<and> ((\<forall>f \<in> set (take 2 (faults w)). f = None) \<longrightarrow>
            r1 = Inr worksheet_name \<and> r2 = Inr worksheet_name)"
proof -
  have e1: "ws_worksheet worksheet_name w = (r1, w1)"
    using get_or_create_existing [OF assms(1)] assms(2) by simp
  have s1: "sheets w1 = sheets w"
    using ws_worksheet_existing [OF assms(1)] e1 by simp
  then have d1: "worksheet_name \<in> dom (sheets w1)" using assms(1) by simp
  have e2: "ws_worksheet worksheet_name w1 = (r2, w2)"
    using get_or_create_existing [OF d1] assms(3) by simp
  have s2: "sheets w2 = sheets w"
    using ws_worksheet_existing [OF d1] e2 s1 by simp
  have c: "map fst (calls w2) = map fst (calls w) @ [Worksheet worksheet_name, Worksheet worksheet_name]"
    using ws_worksheet_existing [OF d1] ws_worksheet_existing [OF assms(1)] e1 e2 by simp
  have f1: "faults w1 = tl (faults w)"
    using ws_worksheet_existing [OF assms(1)] e1 by simp
  have r: "(\<forall>f \<in> set (take 2 (faults w)). f = None) \<longrightarrow>
            r1 = Inr worksheet_name \<and> r2 = Inr worksheet_name"
  proof
    assume a: "\<forall>f \<in> set (take 2 (faults w)). f = None"
    have h1: "faults w = [] \<or> hd (faults w) = None"
      using a by (cases "faults w") auto
    have h2: "faults w1 = [] \<or> hd (faults w1) = None"
      using a f1 by (cases "faults w"; cases "tl (faults w)") (auto simp add: numeral_2_eq_2)
    have "r1 = Inr worksheet_name"
      using ws_worksheet_existing [OF assms(1)] e1 h1 by (cases r1) auto
    moreover have "r2 = Inr worksheet_name"
      using ws_worksheet_existing [OF d1] e2 h2 by (cases r2) auto
    ultimately show "r1 = Inr worksheet_name \<and> r2 = Inr worksheet_name" by simp
  qed
  show ?thesis using s1 s2 c r by blast
qed

theorem resolve_existing_idempotent_witness:
  "get_or_create_worksheet ''Denied Applicants''
     \<lparr>sheets = [''Denied Applicants'' \<mapsto> [canonical_columns]], faults = [], calls = []\<rparr>
   = (Inr ''Denied Applicants'',
      \<lparr>sheets = [''Denied Applicants'' \<mapsto> [canonical_columns]], faults = [],
       calls = [(Worksheet ''Denied Applicants'', None)]\<rparr>)
   \<and> get_or_create_worksheet ''Denied Applicants''
     \<lparr>sheets = [''Denied Applicants'' \<mapsto> [canonical_columns]], faults = [],
       calls = [(Worksheet ''Denied Applicants'', None)]\<rparr>
   = (Inr ''Denied Applicants'',
      \<lparr>sheets = [''Denied Applicants'' \<mapsto> [canonical_columns]], faults = [],
       calls = [(Worksheet ''Denied Applicants'', None), (Worksheet ''Denied Applicants'', None)]\<rparr>)"
  using resolve_existing_idempotent [of "''Denied Applicants''"
      "\<lparr>sheets = [''Denied Applicants'' \<mapsto> [canonical_columns]], faults = [], calls = []\<rparr>"
      "Inr ''Denied Applicants''"
      "\<lparr>sheets = [''Denied Applicants'' \<mapsto> [canonical_columns]], faults = [],
       calls = [(Worksheet ''Denied Applicants'', None)]\<rparr>"
      "Inr ''Denied Applicants''"
      "\<lparr>sheets = [''Denied Applicants'' \<mapsto> [canonical_columns]], faults = [],
       calls = [(Worksheet ''Denied Applicants'', None), (Worksheet ''Denied Applicants'', None)]\<rparr>"]
  by (simp add: get_or_create_worksheet_def ws_worksheet_def perform_def)

section \<open>Properties of the tabular loader\<close>

lemma perform_fault:
  "faults w = Some m # fs \<Longrightarrow>
   perform c sem w =
     (Inl (APIError m), w\<lparr>faults := fs, calls := calls w @ [(c, Some (APIError m))]\<rparr>)"
  by (simp add: perform_def)

lemma perform_through:
  "faults w = [] \<or> hd (faults w) = None \<Longrightarrow>
   perform c sem w =
     (case sem (sheets w) of
        Inl e \<Rightarrow> (Inl e, w\<lparr>faults := tl (faults w), calls := calls w @ [(c, Some e)]\<rparr>)
      | Inr (v, sh) \<Rightarrow>
          (Inr v, w\<lparr>sheets := sh, faults := tl (faults w), calls := calls w @ [(c, None)]\<rparr>))"
  by (auto simp add: perform_def split: list.splits option.splits)

lemma after_failures_faults:
  "faults w = map Some ms @ rest \<Longrightarrow> \<forall>m \<in> set ms. is_rate_limit (APIError m) \<Longrightarrow>
   after_failures (perform c sem) (length ms) w =
     Some (w\<lparr>faults := rest, calls := calls w @ map (\<lambda>m. (c, Some (APIError m))) ms\<rparr>)"
proof (induction ms arbitrary: w)
  case Nil
  then show ?case by simp
next
  case (Cons m ms)
  have f: "faults w = Some m # (map Some ms @ rest)" using Cons.prems(1) by simp
  have rl: "is_rate_limit (APIError m)" using Cons.prems(2) by simp
  let ?w' = "w\<lparr>faults := map Some ms @ rest, calls := calls w @ [(c, Some (APIError m))]\<rparr>"
  have "after_failures (perform c sem) (length ms) ?w' =
     Some (?w'\<lparr>faults := rest, calls := calls ?w' @ map (\<lambda>m. (c, Some (APIError m))) ms\<rparr>)"
    using Cons.prems(2) by (intro Cons.IH) simp_all
  then show ?case using perform_fault [OF f, of c sem] rl by simp
qed

lemma records_of_no_data:
  "length g \<le> 1 \<Longrightarrow> distinct (header_row g) \<Longrightarrow> records_of numericise g = Inr []"
  by (cases g) (simp_all add: records_of_def header_row_def)

lemma records_of_repeated:
  "\<not> distinct (header_row g) \<Longrightarrow> records_of numericise g = Inl header_not_unique"
  by (cases g) (simp_all add: records_of_def header_row_def)

lemma not_rate_limit_header: "\<not> is_rate_limit header_not_unique"
  by (simp add: header_not_unique_def is_rate_limit_def py_lower_def py_lower_char_def)

lemma py_range_3: "py_range 3 = [0, 1, 2]"
  by (simp add: py_range_def upt_conv_Cons)

text \<open>
  Claim C8, as the code has it. The loader returns a table whatever the remote call does:
  the empty table when the three attempts all hit the rate limit; the empty table with the
  canonical columns when the read goes through within the three attempts and the worksheet
  has no data row and no name twice in its header row; and the empty table without any
  column, after an error message, when the read raises any other error, as it does on a
  header row that repeats a name, with or without data rows.
\<close>

theorem loader_never_raises:
  "(faults wa = [Some m1, Some m2, Some m3] @ rest
      \<and> is_rate_limit (APIError m1) \<and> is_rate_limit (APIError m2) \<and> is_rate_limit (APIError m3)
    \<longrightarrow> fst (load_applicants_data numericise to_datetime to_numeric worksheet s wa)
          = DataFrame_empty)
   \<and> (sheets wb worksheet = Some g \<and> length g \<le> 1 \<and> distinct (header_row g)
      \<and> faults wb = map Some ms @ rest' \<and> length ms < 3
      \<and> (\<forall>m \<in> set ms. is_rate_limit (APIError m)) \<and> (rest' = [] \<or> hd rest' = None)
    \<longrightarrow> fst (load_applicants_data numericise to_datetime to_numeric worksheet s wb)
          = \<lparr>columns = canonical_columns, rows = []\<rparr>)
   \<and> (fst (retry_api_call_default (get_all_records numericise worksheet) s wc) = Inl e
    \<longrightarrow> fst (load_applicants_data numericise to_datetime to_numeric worksheet s wc)
          = DataFrame_empty
        \<and> trace (fst (snd (load_applicants_data numericise to_datetime to_numeric worksheet s wc)))
          = trace (fst (snd (retry_api_call_default (get_all_records numericise worksheet) s wc)))
            @ [St_error (Error_loading (exn_str e))])
   \<and> (sheets wd worksheet = Some gd \<and> \<not> distinct (header_row gd)
      \<and> (faults wd = [] \<or> hd (faults wd) = None)
    \<longrightarrow> fst (load_applicants_data numericise to_datetime to_numeric worksheet s wd)
          = DataFrame_empty
        \<and> trace (fst (snd (load_applicants_data numericise to_datetime to_numeric worksheet s wd)))
          = trace s @ [Invoked, St_error (Error_loading (exn_str header_not_unique))])"
proof (intro conjI impI)
  assume a: "faults wa = [Some m1, Some m2, Some m3] @ rest
      \<and> is_rate_limit (APIError m1) \<and> is_rate_limit (APIError m2) \<and> is_rate_limit (APIError m3)"
  let ?c = "GetAllRecords worksheet"
  let ?sem = "\<lambda>sh. case sh worksheet of
              None \<Rightarrow> Inl not_found
            | Some g \<Rightarrow>
                (case records_of numericise g of
                   Inl e \<Rightarrow> Inl e
                 | Inr data \<Rightarrow> Inr (Some data, sh))"
  let ?w1 = "wa\<lparr>faults := Some m3 # rest,
                 calls := calls wa @ map (\<lambda>m. (?c, Some (APIError m))) [m1, m2]\<rparr>"
  have af: "after_failures (perform ?c ?sem) (length [m1, m2]) wa = Some ?w1"
    using a by (intro after_failures_faults) simp_all
  have f3: "perform ?c ?sem ?w1 =
     (Inl (APIError m3), ?w1\<lparr>faults := rest, calls := calls ?w1 @ [(?c, Some (APIError m3))]\<rparr>)"
    by (rule perform_fault) simp
  have "fst (retry_api_call (perform ?c ?sem) 3 1 s wa) = Inr None"
    using retry_after_failures_exhausted [OF af f3, of 3 1 s] a by simp
  then show "fst (load_applicants_data numericise to_datetime to_numeric worksheet s wa)
          = DataFrame_empty"
    by (auto simp add: load_applicants_data_def retry_api_call_default_def get_all_records_def
        split: prod.splits sum.splits option.splits)
next
  assume a: "sheets wb worksheet = Some g \<and> length g \<le> 1 \<and> distinct (header_row g)
      \<and> faults wb = map Some ms @ rest' \<and> length ms < 3
      \<and> (\<forall>m \<in> set ms. is_rate_limit (APIError m)) \<and> (rest' = [] \<or> hd rest' = None)"
  let ?c = "GetAllRecords worksheet"
  let ?sem = "\<lambda>sh. case sh worksheet of
              None \<Rightarrow> Inl not_found
            | Some g \<Rightarrow>
                (case records_of numericise g of
                   Inl e \<Rightarrow> Inl e
                 | Inr data \<Rightarrow> Inr (Some data, sh))"
  let ?w1 = "wb\<lparr>faults := rest', calls := calls wb @ map (\<lambda>m. (?c, Some (APIError m))) ms\<rparr>"
  have af: "after_failures (perform ?c ?sem) (length ms) wb = Some ?w1"
    using a by (intro after_failures_faults) simp_all
  have ok: "perform ?c ?sem ?w1 =
     (Inr (Some []),
      ?w1\<lparr>sheets := sheets wb, faults := tl rest', calls := calls ?w1 @ [(?c, None)]\<rparr>)"
    using a perform_through [of ?w1 ?c ?sem] records_of_no_data [of g numericise] by simp
  have "fst (retry_api_call (perform ?c ?sem) 3 1 s wb) = Inr (Some [])"
    using retry_after_failures_success [OF af ok, of 3 1 s] a by simp
  then show "fst (load_applicants_data numericise to_datetime to_numeric worksheet s wb)
          = \<lparr>columns = canonical_columns, rows = []\<rparr>"
    by (auto simp add: load_applicants_data_def retry_api_call_default_def get_all_records_def
        split: prod.splits sum.splits option.splits)
next
  assume "fst (retry_api_call_default (get_all_records numericise worksheet) s wc) = Inl e"
  then show "fst (load_applicants_data numericise to_datetime to_numeric worksheet s wc)
          = DataFrame_empty"
    by (auto simp add: load_applicants_data_def split: prod.splits sum.splits option.splits)
next
  assume "fst (retry_api_call_default (get_all_records numericise worksheet) s wc) = Inl e"
  then show "trace (fst (snd (load_applicants_data numericise to_datetime to_numeric worksheet s wc)))
          = trace (fst (snd (retry_api_call_default (get_all_records numericise worksheet) s wc)))
            @ [St_error (Error_loading (exn_str e))]"
    by (auto simp add: load_applicants_data_def emit_def split: prod.splits sum.splits option.splits)
next
  assume a: "sheets wd worksheet = Some gd \<and> \<not> distinct (header_row gd)
      \<and> (faults wd = [] \<or> hd (faults wd) = None)"
  let ?c = "GetAllRecords worksheet"
  let ?sem = "\<lambda>sh. case sh worksheet of
              None \<Rightarrow> Inl not_found
            | Some g \<Rightarrow>
                (case records_of numericise g of
                   Inl e \<Rightarrow> Inl e
                 | Inr data \<Rightarrow> Inr (Some data, sh))"
  let ?w1 = "wd\<lparr>faults := tl (faults wd), calls := calls wd @ [(?c, Some header_not_unique)]\<rparr>"
  have af: "after_failures (perform ?c ?sem) 0 wd = Some wd" by simp
  have ra: "perform ?c ?sem wd = (Inl header_not_unique, ?w1)"
    using a perform_through [of wd ?c ?sem] records_of_repeated [of gd numericise] by simp
  have r: "retry_api_call_default (get_all_records numericise worksheet) s wd
      = (Inl header_not_unique, emit Invoked s, ?w1)"
    using retry_after_failures_raise [OF af ra not_rate_limit_header, of 3 1 s]
    by (simp add: retry_api_call_default_def get_all_records_def)
  show "fst (load_applicants_data numericise to_datetime to_numeric worksheet s wd)
          = DataFrame_empty"
    using r by (simp add: load_applicants_data_def)
  show "trace (fst (snd (load_applicants_data numericise to_datetime to_numeric worksheet s wd)))
          = trace s @ [Invoked, St_error (Error_loading (exn_str header_not_unique))]"
    using r by (simp add: load_applicants_data_def emit_def)
qed

theorem loader_never_raises_witness:
  "fst (load_applicants_data Str id id ''Tread Hiring'' \<lparr>trace = [], rng = (\<lambda>n. 0)\<rparr>
     \<lparr>sheets = [''Tread Hiring'' \<mapsto> [canonical_columns]],
      faults = [Some ''APIError: [429]: Quota exceeded for quota metric'',
                Some ''APIError: [429]: Quota exceeded for quota metric'',
                Some ''APIError: [429]: Quota exceeded for quota metric''],
      calls = []\<rparr>) = DataFrame_empty
   \<and> fst (load_applicants_data Str id id ''Tread Hiring'' \<lparr>trace = [], rng = (\<lambda>n. 0)\<rparr>
     \<lparr>sheets = [''Tread Hiring'' \<mapsto> [canonical_columns]],
      faults = [Some ''APIError: [429]: Quota exceeded for quota metric''],
      calls = []\<rparr>) = \<lparr>columns = canonical_columns, rows = []\<rparr>
   \<and> fst (load_applicants_data Str id id ''Tread Hiring'' \<lparr>trace = [], rng = (\<lambda>n. 0)\<rparr>
     \<lparr>sheets = [''Tread Hiring'' \<mapsto> [canonical_columns]],
      faults = [Some ''permission denied''],
      calls = []\<rparr>) = DataFrame_empty
   \<and> fst (load_applicants_data Str id id ''Tread Hiring'' \<lparr>trace = [], rng = (\<lambda>n. 0)\<rparr>
     \<lparr>sheets = [''Tread Hiring'' \<mapsto> [[''name'', ''Trust'', ''Trust''], [''Alice'', ''9'', ''8'']]],
      faults = [], calls = []\<rparr>) = DataFrame_empty"
  using loader_never_raises [where
      wa = "\<lparr>sheets = [''Tread Hiring'' \<mapsto> [canonical_columns]],
        faults = [Some ''APIError: [429]: Quota exceeded for quota metric'',
                  Some ''APIError: [429]: Quota exceeded for quota metric'',
                  Some ''APIError: [429]: Quota exceeded for quota metric''],
        calls = []\<rparr>"
      and ?m1.0 = "''APIError: [429]: Quota exceeded for quota metric''"
      and ?m2.0 = "''APIError: [429]: Quota exceeded for quota metric''"
      and ?m3.0 = "''APIError: [429]: Quota exceeded for quota metric''" and rest = "[]"
      and numericise = Str and to_datetime = id and to_numeric = id
      and worksheet = "''Tread Hiring''" and s = "\<lparr>trace = [], rng = (\<lambda>n. 0)\<rparr>"
      and wb = "\<lparr>sheets = [''Tread Hiring'' \<mapsto> [canonical_columns]],
        faults = [Some ''APIError: [429]: Quota exceeded for quota metric''],
        calls = []\<rparr>"
      and g = "[canonical_columns]"
      and ms = "[''APIError: [429]: Quota exceeded for quota metric'']" and rest' = "[]"
      and wc = "\<lparr>sheets = [''Tread Hiring'' \<mapsto> [canonical_columns]],
        faults = [Some ''permission denied''], calls = []\<rparr>"
      and e = "APIError ''permission denied''"
      and wd = "\<lparr>sheets = [''Tread Hiring'' \<mapsto>
                   [[''name'', ''Trust'', ''Trust''], [''Alice'', ''9'', ''8'']]],
        faults = [], calls = []\<rparr>"
      and gd = "[[''name'', ''Trust'', ''Trust''], [''Alice'', ''9'', ''8'']]"]
    is_rate_limit_429 not_rate_limit_perm
  by (simp add: retry_api_call_default_def retry_api_call_def py_range_3 get_all_records_def
      perform_def header_row_def canonical_columns_def SKILL_COLUMNS_def)

text \<open>
  Claim C8, as stated, fails on a worksheet without data rows whose header row repeats a
  name: the read raises, and the loader returns the table without any column, after an
  error message, not the empty table with the canonical columns.
\<close>

theorem loader_repeated_header_counterexample:
  "sheets w_dup ''Tread Hiring'' = Some [[''name'', ''Trust'', ''Trust'']]
   \<and> length [[''name'', ''Trust'', ''Trust'']] \<le> 1
   \<and> faults w_dup = []
   \<and> fst (load_applicants_data Str id id ''Tread Hiring'' s_demo w_dup) = DataFrame_empty
   \<and> fst (load_applicants_data Str id id ''Tread Hiring'' s_demo w_dup)
     \<noteq> \<lparr>columns = canonical_columns, rows = []\<rparr>
   \<and> trace (fst (snd (load_applicants_data Str id id ''Tread Hiring'' s_demo w_dup)))
     = [Invoked, St_error (Error_loading ''the header row in the worksheet is not unique'')]"
  using not_rate_limit_header
  by (simp add: load_applicants_data_def retry_api_call_default_def retry_api_call_def
      py_range_3 get_all_records_def perform_def records_of_def header_not_unique_def
      w_dup_def s_demo_def emit_def DataFrame_empty_def canonical_columns_def)

section \<open>Properties of the stage transitions\<close>

lemma perform_shape:
  "perform c sem w = (r, w') \<Longrightarrow>
     (\<exists>e. r = Inl e \<and> calls w' = calls w @ [(c, Some e)] \<and> sheets w' = sheets w)
   \<or> (\<exists>v sh. r = Inr v \<and> calls w' = calls w @ [(c, None)]
          \<and> sem (sheets w) = Inr (v, sh) \<and> sheets w' = sh)"
  by (auto simp add: perform_def split: list.splits option.splits sum.splits)

lemma row_values_shape:
  "row_values ws i w = (r, w') \<Longrightarrow>
     sheets w' = sheets w
   \<and> ((\<exists>e. r = Inl e \<and> calls w' = calls w @ [(RowValues ws i, Some e)])
      \<or> (\<exists>v. r = Inr v \<and> calls w' = calls w @ [(RowValues ws i, None)]))"
  unfolding row_values_def
  by (drule perform_shape) (auto split: option.splits if_splits)

lemma append_row_shape:
  "append_row ws vals w = (r, w') \<Longrightarrow>
     (\<exists>e. r = Inl e \<and> calls w' = calls w @ [(AppendRow ws vals, Some e)] \<and> sheets w' = sheets w)
   \<or> (\<exists>g. r = Inr () \<and> calls w' = calls w @ [(AppendRow ws vals, None)]
          \<and> sheets w ws = Some g \<and> sheets w' = (sheets w)(ws \<mapsto> g @ [vals]))"
  unfolding append_row_def
  by (drule perform_shape) (auto split: option.splits if_splits)

lemma delete_rows_shape:
  "delete_rows ws i w = (r, w') \<Longrightarrow>
     (\<exists>e. r = Inl e \<and> calls w' = calls w @ [(DeleteRows ws i, Some e)] \<and> sheets w' = sheets w)
   \<or> (r = Inr () \<and> calls w' = calls w @ [(DeleteRows ws i, None)]
       \<and> (\<forall>x. x \<noteq> ws \<longrightarrow> sheets w' x = sheets w x))"
proof -
  assume a: "delete_rows ws i w = (r, w')"
  show ?thesis
  proof (cases "sheets w ws")
    case None
    then show ?thesis
      using perform_shape [OF a [unfolded delete_rows_def]] by auto
  next
    case (Some g)
    show ?thesis
    proof (cases "i < 1")
      case True
      then show ?thesis
        using Some perform_shape [OF a [unfolded delete_rows_def]] by auto
    next
      case False
      have "(\<exists>e. r = Inl e \<and> calls w' = calls w @ [(DeleteRows ws i, Some e)] \<and> sheets w' = sheets w)
        \<or> (r = Inr () \<and> calls w' = calls w @ [(DeleteRows ws i, None)]
            \<and> sheets w' = (sheets w)(ws \<mapsto> take (nat (i - 1)) g @ drop (nat i) g))"
        using False Some perform_shape [OF a [unfolded delete_rows_def]] by auto
      then show ?thesis by auto
    qed
  qed
qed

lemma row_to_list_eq:
  "row_to_list num_str row_data headers acc = acc @ spec_row num_str row_data headers"
  by (induction headers arbitrary: acc) (auto simp add: spec_row_def split: option.splits)

lemma move_row_order:
  assumes "move_row num_str source dest ok err df row_index s w = (s', w')"
  shows "\<exists>vals.
     (calls w' = calls w \<and> sheets w' = sheets w)
   \<or> (\<exists>e. calls w' = calls w @ [(RowValues source 1, Some e)] \<and> sheets w' = sheets w)
   \<or> (\<exists>e. calls w' = calls w @ [(RowValues source 1, None), (AppendRow dest vals, Some e)]
          \<and> sheets w' = sheets w)
   \<or> (\<exists>r. calls w' = calls w @ [(RowValues source 1, None), (AppendRow dest vals, None),
                                   (DeleteRows source (row_index + 2), r)])"
proof (cases "iloc df row_index")
  case (Inl e)
  then show ?thesis using assms by (simp add: move_row_def)
next
  case (Inr row_data)
  obtain r1 w1 where e1: "row_values source 1 w = (r1, w1)" by (cases "row_values source 1 w")
  note s1 = row_values_shape [OF e1]
  show ?thesis
  proof (cases r1)
    case (Inl e)
    then show ?thesis using assms Inr e1 s1 by (auto simp add: move_row_def)
  next
    case r1: (Inr headers)
    let ?vals = "row_to_list num_str row_data headers []"
    obtain r2 w2 where e2: "append_row dest ?vals w1 = (r2, w2)"
      by (cases "append_row dest ?vals w1")
    note s2 = append_row_shape [OF e2]
    show ?thesis
    proof (cases r2)
      case (Inl e)
      then have "calls w' = calls w @ [(RowValues source 1, None), (AppendRow dest ?vals, Some e)]
          \<and> sheets w' = sheets w"
        using assms Inr e1 s1 r1 e2 s2 by (auto simp add: move_row_def)
      then show ?thesis by blast
    next
      case r2: (Inr u)
      obtain r3 w3 where e3: "delete_rows source (row_index + 2) w2 = (r3, w3)"
        by (cases "delete_rows source (row_index + 2) w2")
      note s3 = delete_rows_shape [OF e3]
      have w3: "w' = w3"
        using assms Inr e1 r1 e2 r2 e3
        by (auto simp add: move_row_def split: sum.splits)
      have "\<exists>r. calls w3 = calls w @ [(RowValues source 1, None), (AppendRow dest ?vals, None),
                                   (DeleteRows source (row_index + 2), r)]"
        using s1 r1 s2 r2 s3 by auto
      then show ?thesis using w3 by blast
    qed
  qed
qed


lemma transition_stage_move_row:
  "\<exists>ok err. \<forall>df row_index s w.
     transition_stage t num_str source dest df row_index s w =
       move_row num_str source dest ok err df row_index s w"
  by (cases t)
    (auto simp add: move_applicant_to_denied_def move_applicant_to_hired_def
      reinstate_applicant_def)

lemma row_values_header:
  "sheets w ws = Some g \<Longrightarrow> faults w = [] \<or> hd (faults w) = None \<Longrightarrow>
   row_values ws 1 w =
     (Inr (header_row g), w\<lparr>faults := tl (faults w), calls := calls w @ [(RowValues ws 1, None)]\<rparr>)"
  unfolding row_values_def
  by (cases g) (simp_all add: perform_through header_row_def)

lemma move_row_append_fails:
  assumes "iloc df row_index = Inr row_data" and "sheets w source = Some g"
    and "faults w = None # Some m # rest"
  shows "move_row num_str source dest ok err df row_index s w =
     (emit (St_error (err m)) s,
      w\<lparr>faults := rest,
        calls := calls w @ [(RowValues source 1, None),
          (AppendRow dest (spec_row num_str row_data (header_row g)), Some (APIError m))]\<rparr>)"
proof -
  let ?w1 = "w\<lparr>faults := tl (faults w), calls := calls w @ [(RowValues source 1, None)]\<rparr>"
  have rv: "row_values source 1 w = (Inr (header_row g), ?w1)"
    using assms(2,3) by (intro row_values_header) simp_all
  have f1: "faults ?w1 = Some m # rest" using assms(3) by simp
  show ?thesis
    using assms(1) rv
    by (simp add: move_row_def append_row_def row_to_list_eq perform_fault [OF f1])
qed

text \<open>
  Claim C4. A stage transition issues its remote calls in the order header read, append,
  delete, each only after the one before has returned without raising: a delete is issued
  only after the append has returned. If the append raises, no worksheet has changed: the
  source keeps its row and the destination gets none.
\<close>

theorem delete_only_after_append:
  assumes "transition_stage t num_str source dest df row_index s w = (s', w')"
  shows "(\<exists>vals.
       (calls w' = calls w \<and> sheets w' = sheets w)
     \<or> (\<exists>e. calls w' = calls w @ [(RowValues source 1, Some e)] \<and> sheets w' = sheets w)
     \<or> (\<exists>e. calls w' = calls w @ [(RowValues source 1, None), (AppendRow dest vals, Some e)]
            \<and> sheets w' = sheets w)
     \<or> (\<exists>r. calls w' = calls w @ [(RowValues source 1, None), (AppendRow dest vals, None),
                                     (DeleteRows source (row_index + 2), r)]))
   \<and> (iloc df row_index = Inr row_data \<and> sheets w source = Some g
        \<and> faults w = None # Some m # rest
      \<longrightarrow> sheets w' = sheets w
          \<and> calls w' = calls w @ [(RowValues source 1, None),
                (AppendRow dest (spec_row num_str row_data (header_row g)), Some (APIError m))])"
proof -
  obtain ok err where mv: "\<And>df row_index s w.
     transition_stage t num_str source dest df row_index s w =
       move_row num_str source dest ok err df row_index s w"
    using transition_stage_move_row [of t num_str source dest] by blast
  have m: "move_row num_str source dest ok err df row_index s w = (s', w')"
    using assms mv by simp
  have second: "iloc df row_index = Inr row_data \<and> sheets w source = Some g
        \<and> faults w = None # Some m # rest
      \<longrightarrow> sheets w' = sheets w
          \<and> calls w' = calls w @ [(RowValues source 1, None),
                (AppendRow dest (spec_row num_str row_data (header_row g)), Some (APIError m))]"
  proof
    assume a: "iloc df row_index = Inr row_data \<and> sheets w source = Some g
        \<and> faults w = None # Some m # rest"
    have "move_row num_str source dest ok err df row_index s w =
     (emit (St_error (err m)) s,
      w\<lparr>faults := rest,
        calls := calls w @ [(RowValues source 1, None),
          (AppendRow dest (spec_row num_str row_data (header_row g)), Some (APIError m))]\<rparr>)"
      using a by (intro move_row_append_fails) simp_all
    then show "sheets w' = sheets w
          \<and> calls w' = calls w @ [(RowValues source 1, None),
                (AppendRow dest (spec_row num_str row_data (header_row g)), Some (APIError m))]"
      using m by auto
  qed
  show ?thesis using move_row_order [OF m] second by blast
qed

theorem delete_only_after_append_witness:
  "sheets (snd (transition_stage Deny (\<lambda>q. ''9'') ''Tread Hiring'' ''Denied Applicants''
       df_demo 0 s_demo (w_demo\<lparr>faults := [None, Some ''Internal error'']\<rparr>)))
     = sheets w_demo
   \<and> calls (snd (transition_stage Deny (\<lambda>q. ''9'') ''Tread Hiring'' ''Denied Applicants''
       df_demo 0 s_demo (w_demo\<lparr>faults := [None, Some ''Internal error'']\<rparr>)))
     = [(RowValues ''Tread Hiring'' 1, None),
        (AppendRow ''Denied Applicants'' [''Alice'', ''9''], Some (APIError ''Internal error''))]"
  using delete_only_after_append [of Deny "\<lambda>q. ''9''" "''Tread Hiring''" "''Denied Applicants''"
      df_demo 0 s_demo "w_demo\<lparr>faults := [None, Some ''Internal error'']\<rparr>"
      "fst (transition_stage Deny (\<lambda>q. ''9'') ''Tread Hiring'' ''Denied Applicants''
         df_demo 0 s_demo (w_demo\<lparr>faults := [None, Some ''Internal error'']\<rparr>))"
      "snd (transition_stage Deny (\<lambda>q. ''9'') ''Tread Hiring'' ''Denied Applicants''
         df_demo 0 s_demo (w_demo\<lparr>faults := [None, Some ''Internal error'']\<rparr>))"
      "[''name'' \<mapsto> Str ''Alice'', ''Trust'' \<mapsto> Num 9]"
      "[[''name'', ''Trust''], [''Alice'', ''9'']]" "''Internal error''" "[]"]
  by (simp add: w_demo_def df_demo_def iloc_def header_row_def spec_row_def)

lemma append_row_through:
  "sheets w ws = Some g \<Longrightarrow> faults w = [] \<or> hd (faults w) = None \<Longrightarrow>
   append_row ws vals w =
     (Inr (), w\<lparr>sheets := (sheets w)(ws \<mapsto> g @ [vals]), faults := tl (faults w),
               calls := calls w @ [(AppendRow ws vals, None)]\<rparr>)"
  unfolding append_row_def by (simp add: perform_through)

lemma move_row_appends:
  assumes "iloc df row_index = Inr row_data"
    and "sheets w source = Some g" and "sheets w dest = Some gd"
    and "\<forall>f \<in> set (take 2 (faults w)). f = None"
    and "move_row num_str source dest ok err df row_index s w = (s', w')"
  shows "(\<exists>r. calls w' =
            calls w @ [(RowValues source 1, None),
                       (AppendRow dest (spec_row num_str row_data (header_row g)), None),
                       (DeleteRows source (row_index + 2), r)])
       \<and> (source \<noteq> dest \<longrightarrow>
            sheets w' dest = Some (gd @ [spec_row num_str row_data (header_row g)]))"
proof -
  let ?vals = "spec_row num_str row_data (header_row g)"
  let ?w1 = "w\<lparr>faults := tl (faults w), calls := calls w @ [(RowValues source 1, None)]\<rparr>"
  let ?w2 = "?w1\<lparr>sheets := (sheets ?w1)(dest \<mapsto> gd @ [?vals]), faults := tl (faults ?w1),
               calls := calls ?w1 @ [(AppendRow dest ?vals, None)]\<rparr>"
  have h1: "faults w = [] \<or> hd (faults w) = None"
    using assms(4) by (cases "faults w") auto
  have h2: "faults ?w1 = [] \<or> hd (faults ?w1) = None"
    using assms(4) by (cases "faults w"; cases "tl (faults w)") (auto simp add: numeral_2_eq_2)
  have rv: "row_values source 1 w = (Inr (header_row g), ?w1)"
    using assms(2) h1 by (rule row_values_header)
  have ap: "append_row dest ?vals ?w1 = (Inr (), ?w2)"
    using assms(3) h2 by (intro append_row_through) simp_all
  obtain r3 w3 where e3: "delete_rows source (row_index + 2) ?w2 = (r3, w3)"
    by (cases "delete_rows source (row_index + 2) ?w2")
  have w3: "w' = w3"
    using assms(1,5) rv ap e3
    by (auto simp add: move_row_def row_to_list_eq split: sum.splits)
  have c: "\<exists>r. calls w3 =
            calls w @ [(RowValues source 1, None), (AppendRow dest ?vals, None),
                       (DeleteRows source (row_index + 2), r)]"
    using delete_rows_shape [OF e3] by auto
  have d: "source \<noteq> dest \<longrightarrow> sheets w3 dest = Some (gd @ [?vals])"
    using delete_rows_shape [OF e3] by auto
  show ?thesis using c d w3 by simp
qed

text \<open>
  Claim C2, as the code has it. When the header read and the append go through, the row a
  transition appends holds, for each column name of the header row of the source worksheet
  (the one the row leaves), in that order, the text of the row's value under that name, and
  the empty string where the row has no such column or the value is null or NaN. The header
  row of the destination worksheet is never read.
\<close>

theorem appended_row_follows_source_header:
  assumes "iloc df row_index = Inr row_data"
    and "sheets w source = Some g" and "sheets w dest = Some gd"
    and "\<forall>f \<in> set (take 2 (faults w)). f = None"
    and "transition_stage t num_str source dest df row_index s w = (s', w')"
  shows "(\<exists>r. calls w' =
            calls w @ [(RowValues source 1, None),
                       (AppendRow dest (spec_row num_str row_data (header_row g)), None),
                       (DeleteRows source (row_index + 2), r)])
       \<and> (source \<noteq> dest \<longrightarrow>
            sheets w' dest = Some (gd @ [spec_row num_str row_data (header_row g)]))"
proof -
  obtain ok err where mv: "\<And>df row_index s w.
     transition_stage t num_str source dest df row_index s w =
       move_row num_str source dest ok err df row_index s w"
    using transition_stage_move_row [of t num_str source dest] by blast
  have m: "move_row num_str source dest ok err df row_index s w = (s', w')"
    using assms(5) mv by simp
  show ?thesis
    using assms(1) assms(2) assms(3) assms(4) m by (rule move_row_appends)
qed

theorem appended_row_follows_source_header_witness:
  "sheets (snd (transition_stage Hire (\<lambda>q. ''9'') ''Tread Hiring'' ''Denied Applicants''
       df_demo 0 s_demo w_demo)) ''Denied Applicants''
     = Some [[''Trust'', ''name''], [''Alice'', ''9'']]"
  using appended_row_follows_source_header [of df_demo 0
      "[''name'' \<mapsto> Str ''Alice'', ''Trust'' \<mapsto> Num 9]" w_demo
      "''Tread Hiring''" "[[''name'', ''Trust''], [''Alice'', ''9'']]"
      "''Denied Applicants''" "[[''Trust'', ''name'']]" Hire "\<lambda>q. ''9''" s_demo
      "fst (transition_stage Hire (\<lambda>q. ''9'') ''Tread Hiring'' ''Denied Applicants''
         df_demo 0 s_demo w_demo)"
      "snd (transition_stage Hire (\<lambda>q. ''9'') ''Tread Hiring'' ''Denied Applicants''
         df_demo 0 s_demo w_demo)"]
  by (simp add: w_demo_def df_demo_def iloc_def header_row_def spec_row_def)

text \<open>
  Claim C2, as stated, fails where the two header rows differ: the denied worksheet has the
  columns Trust, name, and the appended row is Alice, 9, in the order of the active
  worksheet, not 9, Alice.
\<close>

theorem appended_row_order_counterexample:
  "sheets (snd (transition_stage Deny (\<lambda>q. ''9'') ''Tread Hiring'' ''Denied Applicants''
       df_demo 0 s_demo w_demo)) ''Denied Applicants''
     = Some [[''Trust'', ''name''], [''Alice'', ''9'']]
   \<and> spec_row (\<lambda>q. ''9'') [''name'' \<mapsto> Str ''Alice'', ''Trust'' \<mapsto> Num 9] [''Trust'', ''name'']
     = [''9'', ''Alice'']
   \<and> sheets (snd (transition_stage Deny (\<lambda>q. ''9'') ''Tread Hiring'' ''Denied Applicants''
       df_demo 0 s_demo w_demo)) ''Denied Applicants''
     \<noteq> Some [[''Trust'', ''name''],
              spec_row (\<lambda>q. ''9'') [''name'' \<mapsto> Str ''Alice'', ''Trust'' \<mapsto> Num 9]
                [''Trust'', ''name'']]"
  by (simp add: move_applicant_to_denied_def move_row_def w_demo_def df_demo_def iloc_def
      row_values_def append_row_def delete_rows_def perform_def spec_row_def row_name_def)

section \<open>Where the mutation engine retries\<close>

lemma transition_stage_move_row_err:
  "\<exists>ok. \<forall>df row_index s w.
     transition_stage t num_str source dest df row_index s w =
       move_row num_str source dest ok (transition_error t) df row_index s w"
  by (cases t)
    (auto simp add: move_applicant_to_denied_def move_applicant_to_hired_def
      reinstate_applicant_def transition_error_def)

lemma move_row_fault:
  assumes "iloc df row_index = Inr row_data"
    and "sheets w source = Some g" and "sheets w dest = Some gd"
    and "faults w = replicate j None @ Some m # rest" and "j < 3"
    and "move_row num_str source dest ok err df row_index s w = (s', w')"
  shows "trace s' = trace s @ [St_error (err m)]
       \<and> calls w' =
           calls w
           @ map (\<lambda>c. (c, None))
               (take j [RowValues source 1,
                        AppendRow dest (spec_row num_str row_data (header_row g))])
           @ [([RowValues source 1,
                AppendRow dest (spec_row num_str row_data (header_row g)),
                DeleteRows source (row_index + 2)] ! j, Some (APIError m))]"
proof -
  let ?vals = "spec_row num_str row_data (header_row g)"
  consider "j = 0" | "j = 1" | "j = 2" using assms(5) by linarith
  then show ?thesis
  proof cases
    case 1
    then have f: "faults w = Some m # rest" using assms(4) by simp
    show ?thesis
      using assms(1,6) 1
      by (auto simp add: move_row_def row_values_def perform_fault [OF f] emit_def)
  next
    case 2
    then have f: "faults w = None # Some m # rest" using assms(4) by simp
    show ?thesis
      using move_row_append_fails [OF assms(1,2) f, of num_str dest ok err s] assms(6) 2
      by (auto simp add: emit_def)
  next
    case 3
    then have f: "faults w = None # None # Some m # rest"
      using assms(4) by (simp add: numeral_2_eq_2)
    let ?w1 = "w\<lparr>faults := tl (faults w), calls := calls w @ [(RowValues source 1, None)]\<rparr>"
    let ?w2 = "?w1\<lparr>sheets := (sheets ?w1)(dest \<mapsto> gd @ [?vals]), faults := tl (faults ?w1),
               calls := calls ?w1 @ [(AppendRow dest ?vals, None)]\<rparr>"
    have rv: "row_values source 1 w = (Inr (header_row g), ?w1)"
      using assms(2) f by (intro row_values_header) simp_all
    have ap: "append_row dest ?vals ?w1 = (Inr (), ?w2)"
      using assms(3) f by (intro append_row_through) simp_all
    have f2: "faults ?w2 = Some m # rest" using f by simp
    have dl: "delete_rows source (row_index + 2) ?w2 =
        (Inl (APIError m),
         ?w2\<lparr>faults := rest,
              calls := calls ?w2 @ [(DeleteRows source (row_index + 2), Some (APIError m))]\<rparr>)"
      unfolding delete_rows_def by (rule perform_fault [OF f2])
    show ?thesis
      using assms(1,6) rv ap dl 3
      by (auto simp add: move_row_def row_to_list_eq emit_def numeral_2_eq_2)
  qed
qed

lemma sleeps_report_updated:
  "sleeps (trace (report_updated df row_index s)) = sleeps (trace s)"
  by (simp add: report_updated_def emit_def sleeps_def split: sum.splits)

lemma update_header_fault:
  "faults w = Some m # rest \<Longrightarrow>
   update_applicant_scores worksheet df row_index scores s w =
     (emit (St_error (Error_updating m)) s,
      w\<lparr>faults := rest, calls := calls w @ [(RowValues worksheet 1, Some (APIError m))]\<rparr>)"
  by (simp add: update_applicant_scores_def row_values_def perform_fault Let_def)

lemma update_batch_retried:
  assumes "sheets w worksheet = Some g"
    and "updates = all_updates (header_row g) (row_index + 2) scores
                     (calculate_applicant_score (map_of scores))"
    and "updates \<noteq> []"
    and "faults w = None # map Some ms @ rest" and "length ms < 3"
    and "\<forall>m \<in> set ms. is_rate_limit (APIError m)" and "rest = [] \<or> hd rest = None"
    and "update_applicant_scores worksheet df row_index scores s w = (s', w')"
  shows "calls w' =
           calls w
           @ (RowValues worksheet 1, None)
             # map (\<lambda>m. (BatchUpdate worksheet updates, Some (APIError m))) ms
           @ [(BatchUpdate worksheet updates, None)]
       \<and> sleeps (trace s') = sleeps (trace s) @ map (\<lambda>a. 1 * 2 ^ a + rng s a) [0..<length ms]"
proof -
  let ?c = "BatchUpdate worksheet updates"
  let ?sem = "\<lambda>sh. case sh worksheet of None \<Rightarrow> Inl not_found | Some g \<Rightarrow> Inr (Some (), sh)"
  let ?w1 = "w\<lparr>faults := tl (faults w), calls := calls w @ [(RowValues worksheet 1, None)]\<rparr>"
  let ?w2 = "?w1\<lparr>faults := rest, calls := calls ?w1 @ map (\<lambda>m. (?c, Some (APIError m))) ms\<rparr>"
  let ?w3 = "?w2\<lparr>sheets := sheets w, faults := tl rest, calls := calls ?w2 @ [(?c, None)]\<rparr>"
  let ?s2 = "emit Invoked (waited 3 1 0 (length ms) s)"
  have rv: "row_values worksheet 1 w = (Inr (header_row g), ?w1)"
    using assms(1,4) by (intro row_values_header) simp_all
  have af: "after_failures (perform ?c ?sem) (length ms) ?w1 = Some ?w2"
    using assms(4,6) by (intro after_failures_faults) simp_all
  have ok: "perform ?c ?sem ?w2 = (Inr (Some ()), ?w3)"
    using assms(1,7) perform_through [of ?w2 ?c ?sem] by simp
  have r: "retry_api_call (perform ?c ?sem) 3 1 s ?w1 = (Inr (Some ()), ?s2, ?w3)"
    using retry_after_failures_success [OF af ok, of 3 1 s] assms(5) by simp
  have res: "(s', w') = (report_updated df row_index ?s2, ?w3)"
    using assms(2,3,8) rv r
    by (simp add: update_applicant_scores_def Let_def retry_api_call_default_def
        batch_update_def)
  have sl: "sleeps (trace ?s2) = sleeps (trace s) @ map (\<lambda>a. 1 * 2 ^ a + rng s a) [0..<length ms]"
    using trace_waited [of 3 1 0 "length ms" s] sleeps_backoffs [of 3 1 0 "rng s" "length ms"]
    by (simp add: emit_def sleeps_append) (simp add: sleeps_def)
  show ?thesis
    using res sl by (simp add: sleeps_report_updated)
qed


lemma is_rate_limit_msg_429: "is_rate_limit (APIError msg_429)"
  by (simp add: msg_429_def is_rate_limit_429)

lemma a1_B2: "a1 (Suc (Suc 0)) 2 = ''B2''"
  by code_simp

text \<open>
  Claim C5, as the code has it. Of the remote calls of the four operations only the batched
  write of the score update goes through the retry executor: rate-limit errors on it are
  followed by a sleep and a new attempt, up to three attempts. The header read of the score
  update and the three calls of a stage transition are made directly: an error on one of
  them, rate limit or not, ends the operation with an error message after that single call,
  with no sleep and no further call.
\<close>

theorem retry_only_around_batch_update:
  "(iloc df row_index = Inr row_data \<and> sheets wa source = Some g \<and> sheets wa dest = Some gd
      \<and> faults wa = replicate j None @ Some m # rest \<and> j < 3
    \<longrightarrow> trace (fst (transition_stage t num_str source dest df row_index s wa))
          = trace s @ [St_error (transition_error t m)]
        \<and> calls (snd (transition_stage t num_str source dest df row_index s wa))
          = calls wa
            @ map (\<lambda>c. (c, None))
                (take j [RowValues source 1,
                         AppendRow dest (spec_row num_str row_data (header_row g))])
            @ [([RowValues source 1,
                 AppendRow dest (spec_row num_str row_data (header_row g)),
                 DeleteRows source (row_index + 2)] ! j, Some (APIError m))])
   \<and> (faults wb = Some m # rest
    \<longrightarrow> update_applicant_scores worksheet df row_index scores s wb
          = (emit (St_error (Error_updating m)) s,
             wb\<lparr>faults := rest,
                calls := calls wb @ [(RowValues worksheet 1, Some (APIError m))]\<rparr>))
   \<and> (sheets wc worksheet = Some gc
      \<and> updates = all_updates (header_row gc) (row_index + 2) scores
                    (calculate_applicant_score (map_of scores))
      \<and> updates \<noteq> []
      \<and> faults wc = None # map Some ms @ rest' \<and> length ms < 3
      \<and> (\<forall>m \<in> set ms. is_rate_limit (APIError m)) \<and> (rest' = [] \<or> hd rest' = None)
    \<longrightarrow> calls (snd (update_applicant_scores worksheet df row_index scores s wc))
          = calls wc
            @ (RowValues worksheet 1, None)
              # map (\<lambda>m. (BatchUpdate worksheet updates, Some (APIError m))) ms
            @ [(BatchUpdate worksheet updates, None)]
        \<and> sleeps (trace (fst (update_applicant_scores worksheet df row_index scores s wc)))
          = sleeps (trace s) @ map (\<lambda>a. 1 * 2 ^ a + rng s a) [0..<length ms])"
proof (intro conjI impI)
  assume a: "iloc df row_index = Inr row_data \<and> sheets wa source = Some g
      \<and> sheets wa dest = Some gd \<and> faults wa = replicate j None @ Some m # rest \<and> j < 3"
  obtain ok where mv: "\<And>df row_index s w.
     transition_stage t num_str source dest df row_index s w =
       move_row num_str source dest ok (transition_error t) df row_index s w"
    using transition_stage_move_row_err [of t num_str source dest] by blast
  obtain s' w' where m: "move_row num_str source dest ok (transition_error t) df row_index s wa
      = (s', w')"
    by (cases "move_row num_str source dest ok (transition_error t) df row_index s wa")
  have "trace s' = trace s @ [St_error (transition_error t m)]
       \<and> calls w' =
           calls wa
           @ map (\<lambda>c. (c, None))
               (take j [RowValues source 1,
                        AppendRow dest (spec_row num_str row_data (header_row g))])
           @ [([RowValues source 1,
                AppendRow dest (spec_row num_str row_data (header_row g)),
                DeleteRows source (row_index + 2)] ! j, Some (APIError m))]"
    using a m by (intro move_row_fault [where gd = gd and rest = rest and ok = ok]) simp_all
  then show "trace (fst (transition_stage t num_str source dest df row_index s wa))
          = trace s @ [St_error (transition_error t m)]"
    and "calls (snd (transition_stage t num_str source dest df row_index s wa))
          = calls wa
            @ map (\<lambda>c. (c, None))
                (take j [RowValues source 1,
                         AppendRow dest (spec_row num_str row_data (header_row g))])
            @ [([RowValues source 1,
                 AppendRow dest (spec_row num_str row_data (header_row g)),
                 DeleteRows source (row_index + 2)] ! j, Some (APIError m))]"
    using m mv by simp_all
next
  assume "faults wb = Some m # rest"
  then show "update_applicant_scores worksheet df row_index scores s wb
          = (emit (St_error (Error_updating m)) s,
             wb\<lparr>faults := rest,
                calls := calls wb @ [(RowValues worksheet 1, Some (APIError m))]\<rparr>)"
    by (rule update_header_fault)
next
  assume a: "sheets wc worksheet = Some gc
      \<and> updates = all_updates (header_row gc) (row_index + 2) scores
                    (calculate_applicant_score (map_of scores))
      \<and> updates \<noteq> []
      \<and> faults wc = None # map Some ms @ rest' \<and> length ms < 3
      \<and> (\<forall>m \<in> set ms. is_rate_limit (APIError m)) \<and> (rest' = [] \<or> hd rest' = None)"
  obtain s' w' where u: "update_applicant_scores worksheet df row_index scores s wc = (s', w')"
    by (cases "update_applicant_scores worksheet df row_index scores s wc")
  have "calls w' =
           calls wc
           @ (RowValues worksheet 1, None)
             # map (\<lambda>m. (BatchUpdate worksheet updates, Some (APIError m))) ms
           @ [(BatchUpdate worksheet updates, None)]
       \<and> sleeps (trace s') = sleeps (trace s) @ map (\<lambda>a. 1 * 2 ^ a + rng s a) [0..<length ms]"
    using a u by (intro update_batch_retried [where g = gc and rest = rest']) auto
  then show "calls (snd (update_applicant_scores worksheet df row_index scores s wc))
          = calls wc
            @ (RowValues worksheet 1, None)
              # map (\<lambda>m. (BatchUpdate worksheet updates, Some (APIError m))) ms
            @ [(BatchUpdate worksheet updates, None)]"
    and "sleeps (trace (fst (update_applicant_scores worksheet df row_index scores s wc)))
          = sleeps (trace s) @ map (\<lambda>a. 1 * 2 ^ a + rng s a) [0..<length ms]"
    using u by simp_all
qed

theorem retry_only_around_batch_update_witness:
  "trace (fst (transition_stage Deny (\<lambda>q. ''9'') ''Tread Hiring'' ''Denied Applicants''
       df_demo 0 s_demo (w_demo\<lparr>faults := [None, Some msg_429]\<rparr>)))
     = [St_error (Error_moving msg_429)]
   \<and> fst (update_applicant_scores ''Tread Hiring'' df_demo 0 [(''Trust'', RNum 8)] s_demo
       (w_demo\<lparr>faults := [Some msg_429]\<rparr>))
     = emit (St_error (Error_updating msg_429)) s_demo
   \<and> calls (snd (update_applicant_scores ''Tread Hiring'' df_demo 0 [(''Trust'', RNum 8)] s_demo
       (w_demo\<lparr>faults := [None, Some msg_429]\<rparr>)))
     = [(RowValues ''Tread Hiring'' 1, None),
        (BatchUpdate ''Tread Hiring'' [(''B2'', RNum 8)], Some (APIError msg_429)),
        (BatchUpdate ''Tread Hiring'' [(''B2'', RNum 8)], None)]
   \<and> sleeps (trace (fst (update_applicant_scores ''Tread Hiring'' df_demo 0 [(''Trust'', RNum 8)]
       s_demo (w_demo\<lparr>faults := [None, Some msg_429]\<rparr>))))
     = [3 / 2]"
  using retry_only_around_batch_update [where df = df_demo and row_index = 0
      and row_data = "[''name'' \<mapsto> Str ''Alice'', ''Trust'' \<mapsto> Num 9]"
      and wa = "w_demo\<lparr>faults := [None, Some msg_429]\<rparr>"
      and source = "''Tread Hiring''" and g = "[[''name'', ''Trust''], [''Alice'', ''9'']]"
      and dest = "''Denied Applicants''" and gd = "[[''Trust'', ''name'']]"
      and j = 1 and m = msg_429 and rest = "[]" and t = Deny and num_str = "\<lambda>q. ''9''"
      and s = s_demo and wb = "w_demo\<lparr>faults := [Some msg_429]\<rparr>"
      and worksheet = "''Tread Hiring''" and scores = "[(''Trust'', RNum 8)]"
      and wc = "w_demo\<lparr>faults := [None, Some msg_429]\<rparr>"
      and gc = "[[''name'', ''Trust''], [''Alice'', ''9'']]"
      and updates = "[(''B2'', RNum 8)]" and ms = "[msg_429]" and rest' = "[]"]
    is_rate_limit_msg_429
  by (simp add: w_demo_def df_demo_def s_demo_def iloc_def header_row_def all_updates_def
      a1_B2 transition_error_def spec_row_def sleeps_def)

text \<open>
  Claim C5, as stated, fails on a stage transition: the append of a deny raises a rate-limit
  error once; it is not tried again, although the next call would go through, and the
  operation ends with an error message, the denied worksheet unchanged.
\<close>

theorem transition_not_retried_counterexample:
  "is_rate_limit (APIError msg_429)
   \<and> calls (snd (transition_stage Deny (\<lambda>q. ''9'') ''Tread Hiring'' ''Denied Applicants''
       df_demo 0 s_demo (w_demo\<lparr>faults := [None, Some msg_429]\<rparr>)))
     = [(RowValues ''Tread Hiring'' 1, None),
        (AppendRow ''Denied Applicants'' [''Alice'', ''9''], Some (APIError msg_429))]
   \<and> trace (fst (transition_stage Deny (\<lambda>q. ''9'') ''Tread Hiring'' ''Denied Applicants''
       df_demo 0 s_demo (w_demo\<lparr>faults := [None, Some msg_429]\<rparr>)))
     = [St_error (Error_moving msg_429)]
   \<and> sheets (snd (transition_stage Deny (\<lambda>q. ''9'') ''Tread Hiring'' ''Denied Applicants''
       df_demo 0 s_demo (w_demo\<lparr>faults := [None, Some msg_429]\<rparr>)))
     = sheets w_demo"
  by (simp add: is_rate_limit_msg_429 move_applicant_to_denied_def move_row_def w_demo_def
      df_demo_def s_demo_def iloc_def row_values_def append_row_def perform_def emit_def)

section \<open>Properties of the score update\<close>

lemma retry_loop_perform_calls:
  "retry_loop (perform c sem) mr bd attempts s w = (r, s', w') \<Longrightarrow>
   \<exists>xs. calls w' = calls w @ xs \<and> length xs \<le> length attempts
      \<and> (\<forall>x \<in> set xs. fst x = c) \<and> (\<forall>x \<in> set (butlast xs). snd x \<noteq> None)"
proof (induction attempts arbitrary: s w)
  case Nil
  then show ?case by simp
next
  case (Cons attempt rest)
  obtain r0 w0 where p: "perform c sem w = (r0, w0)" by (cases "perform c sem w")
  note sh = perform_shape [OF p]
  show ?case
  proof (cases r0)
    case (Inr v)
    then have "calls w' = calls w @ [(c, None)]"
      using Cons.prems p sh by auto
    then show ?thesis by simp
  next
    case (Inl e)
    then have c0: "calls w0 = calls w @ [(c, Some e)]" using sh by auto
    show ?thesis
    proof (cases "is_rate_limit e \<and> attempt < mr - 1")
      case False
      then have "calls w' = calls w @ [(c, Some e)]"
        using Cons.prems p Inl c0 by (auto split: if_splits)
      then show ?thesis by simp
    next
      case True
      then obtain s3 where "retry_loop (perform c sem) mr bd rest s3 w0 = (r, s', w')"
        using Cons.prems p Inl by (auto simp add: Let_def split: prod.splits)
      from Cons.IH [OF this] obtain xs where
        xs: "calls w' = calls w0 @ xs" "length xs \<le> length rest"
          "\<forall>x \<in> set xs. fst x = c" "\<forall>x \<in> set (butlast xs). snd x \<noteq> None"
        by blast
      have "calls w' = calls w @ ((c, Some e) # xs)" using xs(1) c0 by simp
      moreover have "length ((c, Some e) # xs) \<le> length (attempt # rest)" using xs(2) by simp
      moreover have "\<forall>x \<in> set ((c, Some e) # xs). fst x = c" using xs(3) by simp
      moreover have "\<forall>x \<in> set (butlast ((c, Some e) # xs)). snd x \<noteq> None"
        using xs(4) by auto
      ultimately show ?thesis by blast
    qed
  qed
qed

lemma at_most_one_success:
  "\<forall>x \<in> set (butlast xs). snd x \<noteq> None \<Longrightarrow> length (filter (\<lambda>x. snd x = None) xs) \<le> 1"
proof (cases xs rule: rev_cases)
  case Nil
  then show ?thesis by simp
next
  case (snoc ys y)
  assume "\<forall>x \<in> set (butlast xs). snd x \<noteq> None"
  then have "filter (\<lambda>x. snd x = None) ys = []" using snoc by (simp add: filter_empty_conv)
  then show ?thesis using snoc by simp
qed

lemma skill_updates_addr:
  "\<forall>u \<in> set acc. \<exists>c. fst u = c # str_int sheet_row \<Longrightarrow>
   \<forall>u \<in> set (skill_updates headers sheet_row scores acc). \<exists>c. fst u = c # str_int sheet_row"
  by (induction headers sheet_row scores acc rule: skill_updates.induct)
    (auto simp add: a1_def Let_def)

lemma all_updates_addr:
  "\<forall>u \<in> set (all_updates headers sheet_row scores applicant_score).
     \<exists>c. fst u = c # str_int sheet_row"
  using skill_updates_addr [of "[]" sheet_row headers scores]
  by (auto simp add: all_updates_def a1_def Let_def)

lemma skill_updates_no_match:
  "set headers \<inter> fst ` set scores = {} \<Longrightarrow> skill_updates headers sheet_row scores acc = acc"
  by (induction headers sheet_row scores acc rule: skill_updates.induct) auto

lemma all_updates_no_match:
  "set headers \<inter> (fst ` set scores \<union> {''Applicant Score''}) = {} \<Longrightarrow>
   all_updates headers sheet_row scores applicant_score = []"
  using skill_updates_no_match [of headers scores sheet_row "[]"]
  by (auto simp add: all_updates_def)

text \<open>
  Claim C7, as the code has it. After the read of the header row, the score update makes no
  other remote call than attempts of one and the same batched write: at most three, the
  retries of the executor, and at most one of them goes through. Every cell address of the
  batch is a column character followed by \<open>row_index + 2\<close>. When no column of the header
  row is a rated skill or the Applicant Score column, the header read is the only remote
  call, no worksheet changes, and the operator is told of success when \<open>row_index\<close> is a
  position of the loaded table and the row has a name.
\<close>

theorem update_scores_batch:
  assumes "update_applicant_scores worksheet df row_index scores s w = (s', w')"
  shows "(\<exists>outcome updates xs.
            calls w' = calls w @ (RowValues worksheet 1, outcome) # xs
          \<and> (\<forall>x \<in> set xs. fst x = BatchUpdate worksheet updates)
          \<and> length xs \<le> 3
          \<and> length (filter (\<lambda>x. snd x = None) xs) \<le> 1
          \<and> (\<forall>u \<in> set updates. \<exists>c. fst u = c # str_int (row_index + 2)))
       \<and> (sheets w worksheet = Some g \<and> (faults w = [] \<or> hd (faults w) = None)
            \<and> set (header_row g) \<inter> (fst ` set scores \<union> {''Applicant Score''}) = {}
          \<longrightarrow> calls w' = calls w @ [(RowValues worksheet 1, None)]
              \<and> sheets w' = sheets w
              \<and> (iloc df row_index = Inr row_data \<and> row_data ''name'' = Some nm
                  \<longrightarrow> trace s' = trace s @ [St_success (Scores_updated nm)]))"
proof
  obtain r1 w1 where e1: "row_values worksheet 1 w = (r1, w1)"
    by (cases "row_values worksheet 1 w")
  note s1 = row_values_shape [OF e1]
  show "\<exists>outcome updates xs.
            calls w' = calls w @ (RowValues worksheet 1, outcome) # xs
          \<and> (\<forall>x \<in> set xs. fst x = BatchUpdate worksheet updates)
          \<and> length xs \<le> 3
          \<and> length (filter (\<lambda>x. snd x = None) xs) \<le> 1
          \<and> (\<forall>u \<in> set updates. \<exists>c. fst u = c # str_int (row_index + 2))"
  proof (cases r1)
    case (Inl e)
    then have "calls w' = calls w @ (RowValues worksheet 1, Some e) # []"
      using assms e1 s1 by (auto simp add: update_applicant_scores_def Let_def)
    then show ?thesis by (intro exI [of _ "Some e"] exI [of _ "[]"]) simp
  next
    case (Inr headers)
    define updates where "updates = all_updates headers (row_index + 2) scores
        (calculate_applicant_score (map_of scores))"
    have c1: "calls w1 = calls w @ [(RowValues worksheet 1, None)]" using s1 Inr by auto
    have addr: "\<forall>u \<in> set updates. \<exists>c. fst u = c # str_int (row_index + 2)"
      unfolding updates_def by (rule all_updates_addr)
    show ?thesis
    proof (cases "updates = []")
      case True
      then have "w' = w1"
        using assms e1 Inr by (simp add: update_applicant_scores_def Let_def updates_def)
      then have "calls w' = calls w @ (RowValues worksheet 1, None) # []" using c1 by simp
      then show ?thesis using addr
        by (intro exI [of _ None] exI [of _ updates] exI [of _ "[]"]) simp
    next
      case False
      let ?c = "BatchUpdate worksheet updates"
      let ?sem = "\<lambda>sh. case sh worksheet of None \<Rightarrow> Inl not_found | Some g \<Rightarrow> Inr (Some (), sh)"
      obtain r2 s2 w2 where e2: "retry_loop (perform ?c ?sem) 3 1 (py_range 3) s w1 = (r2, s2, w2)"
        by (cases "retry_loop (perform ?c ?sem) 3 1 (py_range 3) s w1") auto
      from retry_loop_perform_calls [OF e2] obtain xs where
        xs: "calls w2 = calls w1 @ xs" "length xs \<le> length (py_range 3)"
          "\<forall>x \<in> set xs. fst x = ?c" "\<forall>x \<in> set (butlast xs). snd x \<noteq> None"
        by blast
      have "w' = w2"
        using assms e1 Inr False e2
        by (auto simp add: update_applicant_scores_def Let_def updates_def
            retry_api_call_default_def retry_api_call_def batch_update_def
            split: sum.splits option.splits)
      then have "calls w' = calls w @ (RowValues worksheet 1, None) # xs"
        using xs(1) c1 by simp
      moreover have "length xs \<le> 3" using xs(2) by (simp add: py_range_3)
      moreover have "length (filter (\<lambda>x. snd x = None) xs) \<le> 1"
        using xs(4) by (rule at_most_one_success)
      ultimately show ?thesis using xs(3) addr by blast
    qed
  qed
next
  show "sheets w worksheet = Some g \<and> (faults w = [] \<or> hd (faults w) = None)
            \<and> set (header_row g) \<inter> (fst ` set scores \<union> {''Applicant Score''}) = {}
          \<longrightarrow> calls w' = calls w @ [(RowValues worksheet 1, None)]
              \<and> sheets w' = sheets w
              \<and> (iloc df row_index = Inr row_data \<and> row_data ''name'' = Some nm
                  \<longrightarrow> trace s' = trace s @ [St_success (Scores_updated nm)])"
  proof
    assume a: "sheets w worksheet = Some g \<and> (faults w = [] \<or> hd (faults w) = None)
            \<and> set (header_row g) \<inter> (fst ` set scores \<union> {''Applicant Score''}) = {}"
    let ?w1 = "w\<lparr>faults := tl (faults w), calls := calls w @ [(RowValues worksheet 1, None)]\<rparr>"
    have rv: "row_values worksheet 1 w = (Inr (header_row g), ?w1)"
      using a by (intro row_values_header) simp_all
    have nu: "all_updates (header_row g) (row_index + 2) scores
        (calculate_applicant_score (map_of scores)) = []"
      using a by (intro all_updates_no_match) simp
    have res: "(s', w') = (report_updated df row_index s, ?w1)"
      using assms rv nu by (simp add: update_applicant_scores_def Let_def)
    show "calls w' = calls w @ [(RowValues worksheet 1, None)]
              \<and> sheets w' = sheets w
              \<and> (iloc df row_index = Inr row_data \<and> row_data ''name'' = Some nm
                  \<longrightarrow> trace s' = trace s @ [St_success (Scores_updated nm)])"
      using res by (auto simp add: report_updated_def row_name_def emit_def)
  qed
qed

theorem update_scores_batch_witness:
  "calls (snd (update_applicant_scores ''Tread Hiring'' df_demo 0 [(''Aptitude'', RNum 7)]
       s_demo w_demo))
     = [(RowValues ''Tread Hiring'' 1, None)]
   \<and> trace (fst (update_applicant_scores ''Tread Hiring'' df_demo 0 [(''Aptitude'', RNum 7)]
       s_demo w_demo))
     = [St_success (Scores_updated (Str ''Alice''))]"
  using update_scores_batch [where worksheet = "''Tread Hiring''" and df = df_demo
      and row_index = 0 and scores = "[(''Aptitude'', RNum 7)]" and s = s_demo and w = w_demo
      and s' = "fst (update_applicant_scores ''Tread Hiring'' df_demo 0 [(''Aptitude'', RNum 7)]
         s_demo w_demo)"
      and w' = "snd (update_applicant_scores ''Tread Hiring'' df_demo 0 [(''Aptitude'', RNum 7)]
         s_demo w_demo)"
      and g = "[[''name'', ''Trust''], [''Alice'', ''9'']]"
      and row_data = "[''name'' \<mapsto> Str ''Alice'', ''Trust'' \<mapsto> Num 9]"
      and nm = "Str ''Alice''"]
  by (simp add: w_demo_def df_demo_def s_demo_def iloc_def header_row_def)

text \<open>
  Claim C7, as stated, fails on its last part: with no matching column the update still
  makes a remote call, the read of the header row.
\<close>

theorem update_reads_header_counterexample:
  "set (header_row [[''name'', ''Trust''], [''Alice'', ''9'']])
     \<inter> (fst ` set [(''Aptitude'', RNum 7)] \<union> {''Applicant Score''}) = {}
   \<and> sheets w_demo ''Tread Hiring'' = Some [[''name'', ''Trust''], [''Alice'', ''9'']]
   \<and> calls w_demo = []
   \<and> calls (snd (update_applicant_scores ''Tread Hiring'' df_demo 0 [(''Aptitude'', RNum 7)]
       s_demo w_demo))
     = [(RowValues ''Tread Hiring'' 1, None)]
   \<and> calls (snd (update_applicant_scores ''Tread Hiring'' df_demo 0 [(''Aptitude'', RNum 7)]
       s_demo w_demo)) \<noteq> calls w_demo"
  by (simp add: update_applicant_scores_def all_updates_def row_values_def perform_def
      report_updated_def row_name_def w_demo_def df_demo_def s_demo_def iloc_def header_row_def
      Let_def)

section \<open>The result \<open>None\<close> of the retry executor\<close>

lemma always_limited_result:
  assumes "\<forall>w. \<exists>e w'. func w = (Inl e, w') \<and> is_rate_limit e" and "1 \<le> max_retries"
  shows "fst (retry_api_call func max_retries base_delay s w) = Inr None"
proof -
  define k where "k = nat max_retries - 1"
  have mr: "int (Suc k) = max_retries" using assms(2) by (simp add: k_def)
  obtain w1 where af: "after_failures func k w = Some w1"
    using always_limited_after_failures [OF assms(1)] by blast
  obtain e w2 where f: "func w1 = (Inl e, w2)" and rl: "is_rate_limit e"
    using assms(1) by blast
  show ?thesis
    using retry_after_failures_exhausted [OF af f rl mr, of base_delay s] by simp
qed

text \<open>
  Claim C10. If the operation returns a value on an attempt that the executor reaches (the
  attempts before it hit the rate limit), the executor returns that value. An operation that
  returns \<open>None\<close> gives the same result as one whose attempts all hit the rate limit.
  Both callers read \<open>None\<close> as a failure: the loader returns the empty table, the score
  update reports a rate-limit failure and no success.
\<close>

theorem retry_result_and_none:
  "(after_failures func k w = Some w1 \<and> func w1 = (Inr v, w2) \<and> int k < max_retries
    \<longrightarrow> fst (retry_api_call func max_retries base_delay s w) = Inr v)
   \<and> (returns_none wa = (Inr None, wa') \<and> 1 \<le> max_retries
      \<and> (\<forall>w. \<exists>e w'. limited w = (Inl e, w') \<and> is_rate_limit e)
    \<longrightarrow> fst (retry_api_call returns_none max_retries base_delay s wa)
          = fst (retry_api_call limited max_retries base_delay s wb))
   \<and> (fst (retry_api_call_default (get_all_records numericise worksheet) s wc) = Inr None
    \<longrightarrow> fst (load_applicants_data numericise to_datetime to_numeric worksheet s wc)
          = DataFrame_empty)
   \<and> (row_values worksheet 1 wd = (Inr headers, wd1)
      \<and> updates = all_updates headers (row_index + 2) scores
                    (calculate_applicant_score (map_of scores))
      \<and> updates \<noteq> []
      \<and> retry_api_call_default (batch_update worksheet updates) s wd1 = (Inr None, s2, wd2)
    \<longrightarrow> update_applicant_scores worksheet df row_index scores s wd
          = (emit (St_error Update_rate_limited) s2, wd2))"
proof (intro conjI impI)
  assume "after_failures func k w = Some w1 \<and> func w1 = (Inr v, w2) \<and> int k < max_retries"
  then show "fst (retry_api_call func max_retries base_delay s w) = Inr v"
    using retry_after_failures_success [of func k w w1 v w2 max_retries base_delay s] by simp
next
  assume a: "returns_none wa = (Inr None, wa') \<and> 1 \<le> max_retries
      \<and> (\<forall>w. \<exists>e w'. limited w = (Inl e, w') \<and> is_rate_limit e)"
  have "after_failures returns_none 0 wa = Some wa" by simp
  then have "fst (retry_api_call returns_none max_retries base_delay s wa) = Inr None"
    using retry_after_failures_success [of returns_none 0 wa wa None wa' max_retries base_delay s] a
    by simp
  moreover have "fst (retry_api_call limited max_retries base_delay s wb) = Inr None"
    using a by (intro always_limited_result) simp_all
  ultimately show "fst (retry_api_call returns_none max_retries base_delay s wa)
          = fst (retry_api_call limited max_retries base_delay s wb)"
    by simp
next
  assume "fst (retry_api_call_default (get_all_records numericise worksheet) s wc) = Inr None"
  then show "fst (load_applicants_data numericise to_datetime to_numeric worksheet s wc)
          = DataFrame_empty"
    by (auto simp add: load_applicants_data_def split: prod.splits sum.splits option.splits)
next
  assume a: "row_values worksheet 1 wd = (Inr headers, wd1)
      \<and> updates = all_updates headers (row_index + 2) scores
                    (calculate_applicant_score (map_of scores))
      \<and> updates \<noteq> []
      \<and> retry_api_call_default (batch_update worksheet updates) s wd1 = (Inr None, s2, wd2)"
  then show "update_applicant_scores worksheet df row_index scores s wd
          = (emit (St_error Update_rate_limited) s2, wd2)"
    by (auto simp add: update_applicant_scores_def Let_def)
qed

theorem retry_result_and_none_witness:
  "fst (retry_api_call (\<lambda>w. (Inr (Some (5::nat)), w)) 3 1 s_demo w_demo) = Inr (Some 5)
   \<and> fst (retry_api_call (\<lambda>w. (Inr (None :: nat option), w)) 3 1 s_demo w_demo)
     = fst (retry_api_call (\<lambda>w. (Inl (APIError msg_429), w)) 3 1 s_demo w_demo)
   \<and> fst (load_applicants_data Str id id ''Tread Hiring'' s_demo
       (w_demo\<lparr>faults := [Some msg_429, Some msg_429, Some msg_429]\<rparr>)) = DataFrame_empty
   \<and> trace (fst (update_applicant_scores ''Tread Hiring'' df_demo 0 [(''Trust'', RNum 8)] s_demo
       (w_demo\<lparr>faults := [None, Some msg_429, Some msg_429, Some msg_429]\<rparr>)))
     = [Invoked, St_warning (Retrying (3 / 2) 1 3), Slept (3 / 2),
        Invoked, St_warning (Retrying (5 / 2) 2 3), Slept (5 / 2),
        Invoked, St_error Rate_limit_exceeded, St_error Update_rate_limited]"
  using retry_result_and_none [where func = "\<lambda>w. (Inr (Some (5::nat)), w)" and k = 0
      and w = w_demo and ?w1.0 = w_demo and v = "Some 5" and ?w2.0 = w_demo
      and max_retries = 3 and base_delay = 1 and s = s_demo
      and returns_none = "\<lambda>w. (Inr (None :: nat option), w)" and wa = w_demo and wa' = w_demo
      and limited = "\<lambda>w. (Inl (APIError msg_429), w)" and wb = w_demo
      and numericise = Str and worksheet = "''Tread Hiring''"
      and wc = "w_demo\<lparr>faults := [Some msg_429, Some msg_429, Some msg_429]\<rparr>"
      and to_datetime = id and to_numeric = id
      and wd = "w_demo\<lparr>faults := [None, Some msg_429, Some msg_429, Some msg_429]\<rparr>"
      and headers = "[''name'', ''Trust'']"
      and ?wd1.0 = "w_demo\<lparr>faults := [Some msg_429, Some msg_429, Some msg_429],
                          calls := [(RowValues ''Tread Hiring'' 1, None)]\<rparr>"
      and updates = "[(''B2'', RNum 8)]" and row_index = 0 and scores = "[(''Trust'', RNum 8)]"
      and ?s2.0 = "fst (snd (retry_api_call_default
                     (batch_update ''Tread Hiring'' [(''B2'', RNum 8)]) s_demo
                     (w_demo\<lparr>faults := [Some msg_429, Some msg_429, Some msg_429],
                          calls := [(RowValues ''Tread Hiring'' 1, None)]\<rparr>)))"
      and ?wd2.0 = "snd (snd (retry_api_call_default
                     (batch_update ''Tread Hiring'' [(''B2'', RNum 8)]) s_demo
                     (w_demo\<lparr>faults := [Some msg_429, Some msg_429, Some msg_429],
                          calls := [(RowValues ''Tread Hiring'' 1, None)]\<rparr>)))"
      and df = df_demo]
    is_rate_limit_msg_429
  by (simp add: w_demo_def df_demo_def s_demo_def retry_api_call_default_def
      retry_api_call_def py_range_3 get_all_records_def batch_update_def row_values_def
      perform_def all_updates_def a1_B2 emit_def uniform01_def Let_def)

end
